theory Spec2Isabelle
  imports Main "HOL-Library.Sublist"
begin

section \<open>The batch driver \<open>run_pretrained_openfold.py\<close>\<close>

text \<open>
  The theory embeds the driver script: the alignment statistics (\<open>get_msa_stats\<close>), the
  scratch-file helpers (\<open>precompute_alignments\<close>, \<open>generate_feature_dict\<close>), the
  bucket rounding and the control flow of \<open>main\<close>. Collaborators that live outside the
  script (alignment tools, the feature library, the network, the encoders) are fields of an
  environment record; every one of them may raise.
\<close>

subsection \<open>Exceptions\<close>

datatype exn =
  ValueError string
  | AssertionError
  | IndexError
  | KeyError string
  | AttributeError string
  | TypeError string
  | UnboundLocalError string
  | OSError string
  | CollaboratorError string
  | Unmodelled string

subsection \<open>Alignment tensors\<close>

text \<open>
  A rank-2 tensor is its list of rows with the column count kept beside it (the shape
  survives when every row is masked away); a rank-3 tensor carries one more list level, the
  recycling dimension, indexed last: \<open>rows ! r ! c ! i\<close>.
\<close>

record tensor2 =
  t2_cols :: nat
  t2_rows :: "int list list"

record tensor3 =
  t3_cols :: nat
  t3_depth :: nat
  t3_rows :: "int list list list"

datatype tensor = T2 tensor2 | T3 tensor3

definition wf_tensor2 :: "tensor2 \<Rightarrow> bool" where
  "wf_tensor2 t = list_all (\<lambda>r. length r = t2_cols t) (t2_rows t)"

definition wf_tensor3 :: "tensor3 \<Rightarrow> bool" where
  "wf_tensor3 t =
     list_all (\<lambda>r. length r = t3_cols t \<and> list_all (\<lambda>c. length c = t3_depth t) r) (t3_rows t)"

text \<open>\<open>all_msa[:, :, i]\<close>: the \<open>i\<close>-th recycling slice; out of range it raises.\<close>

definition slice_recycle :: "tensor3 \<Rightarrow> nat \<Rightarrow> exn + tensor2" where
  "slice_recycle t i =
     (if i < t3_depth t
      then Inr \<lparr>t2_cols = t3_cols t, t2_rows = map (map (\<lambda>cell. cell ! i)) (t3_rows t)\<rparr>
      else Inl IndexError)"

text \<open>
  \<open>batch_msa\<close> of one loop iteration. Under the prefix \<open>total_\<close> the tensor is used
  whole; \<open>main\<close> passes a rank-2 tensor there (line 361) and the model covers only that
  rank. Under any other prefix the tensor is indexed with three subscripts, which raises on
  a rank-2 tensor.
\<close>

definition select_batch :: "string \<Rightarrow> tensor \<Rightarrow> nat \<Rightarrow> exn + tensor2" where
  "select_batch pfx all_msa i =
     (if pfx = ''total_''
      then (case all_msa of T2 t \<Rightarrow> Inr t
            | T3 t \<Rightarrow> Inl (Unmodelled ''rank-3 tensor under total_''))
      else (case all_msa of T2 t \<Rightarrow> Inl IndexError | T3 t \<Rightarrow> slice_recycle t i))"

text \<open>\<open>mask = (batch_msa != 0).any(dim=1); batch_msa = batch_msa[mask, :]\<close>\<close>

definition drop_padding :: "int list list \<Rightarrow> int list list" where
  "drop_padding rows = filter (\<lambda>r. list_ex (\<lambda>x. x \<noteq> 0) r) rows"

text \<open>\<open>~(msa == 21).all(dim=1)\<close>, one boolean per row.\<close>

definition have_msa :: "int list list \<Rightarrow> bool list" where
  "have_msa msa = map (\<lambda>r. \<not> list_all (\<lambda>x. x = 21) r) msa"

definition bool_and :: "bool list \<Rightarrow> bool list \<Rightarrow> bool list" where
  "bool_and xs ys = map (\<lambda>(a, b). a \<and> b) (zip xs ys)"

definition bool_xor :: "bool list \<Rightarrow> bool list \<Rightarrow> bool list" where
  "bool_xor xs ys = map (\<lambda>(a, b). a \<noteq> b) (zip xs ys)"

definition bool_sum :: "bool list \<Rightarrow> nat" where
  "bool_sum xs = length (filter (\<lambda>b. b) xs)"

text \<open>
  The body of the \<open>for i in range(num_recycle)\<close> loop, lines 72 to 94: the three counts
  written to row \<open>i + 1\<close> of the frame.
\<close>

definition msa_stats_row ::
  "tensor \<Rightarrow> nat \<Rightarrow> nat \<Rightarrow> bool \<Rightarrow> string \<Rightarrow> nat \<Rightarrow> exn + (nat \<times> nat \<times> nat)" where
  "msa_stats_row all_msa seq_length_1 seq_length_2 if_homo pfx i =
     (case select_batch pfx all_msa i of
        Inl e \<Rightarrow> Inl e
      | Inr batch \<Rightarrow>
          let rows = drop_padding (t2_rows batch);
              msa_1 = map (take seq_length_1) rows;
              msa_2 = (if \<not> if_homo then map (drop seq_length_1) rows else msa_1);
              shape_ok = (if \<not> if_homo then t2_cols batch - seq_length_1 = seq_length_2
                          else t2_cols batch = seq_length_1)
          in if \<not> shape_ok then Inl AssertionError
             else
               let have_msa_1 = have_msa msa_1;
                   have_msa_2 = have_msa msa_2;
                   pair_msa = bool_and have_msa_1 have_msa_2;
                   unpair_msa_1 = bool_xor have_msa_1 pair_msa;
                   unpair_msa_2 = bool_xor have_msa_2 pair_msa
               in Inr (bool_sum pair_msa, bool_sum unpair_msa_1, bool_sum unpair_msa_2))"

text \<open>
  The loop itself: the rows of the frame for the iterations \<open>i, i + 1, ...\<close>, \<open>k\<close> of
  them; the first iteration that raises ends the call.
\<close>

fun msa_stats_loop ::
  "tensor \<Rightarrow> nat \<Rightarrow> nat \<Rightarrow> bool \<Rightarrow> string \<Rightarrow> nat \<Rightarrow> nat \<Rightarrow> exn + (nat \<times> nat \<times> nat) list" where
  "msa_stats_loop all_msa l1 l2 if_homo pfx i 0 = Inr []"
| "msa_stats_loop all_msa l1 l2 if_homo pfx i (Suc k) =
     (case msa_stats_row all_msa l1 l2 if_homo pfx i of
        Inl e \<Rightarrow> Inl e
      | Inr row \<Rightarrow>
          (case msa_stats_loop all_msa l1 l2 if_homo pfx (Suc i) k of
             Inl e \<Rightarrow> Inl e
           | Inr rest \<Rightarrow> Inr (row # rest)))"

text \<open>
  \<open>get_msa_stats\<close>: the frame indexed by \<open>recycle_num = 1 .. num_recycle\<close>, as the list
  of its rows (paired, unpaired_chain_1, unpaired_chain_2) in index order.
\<close>

definition get_msa_stats ::
  "tensor \<Rightarrow> nat \<Rightarrow> nat \<Rightarrow> nat \<Rightarrow> bool \<Rightarrow> string \<Rightarrow> exn + (nat \<times> nat \<times> nat) list" where
  "get_msa_stats all_msa seq_length_1 seq_length_2 num_recycle if_homo pfx =
     msa_stats_loop all_msa seq_length_1 seq_length_2 if_homo pfx 0 num_recycle"

definition stats_columns :: "string \<Rightarrow> string list" where
  "stats_columns pfx = map (\<lambda>j. pfx @ j) [''paired'', ''unpaired_chain_1'', ''unpaired_chain_2'']"

subsection \<open>The aggregator as the specification words it\<close>

text \<open>
  A row is present in a chain when not all of its positions in that chain's column range
  equal the gap value 21; chain 1 owns the first \<open>l1\<close> columns, chain 2 the rest.
\<close>

definition present_1 :: "nat \<Rightarrow> int list \<Rightarrow> bool" where
  "present_1 l1 r = (\<exists>x \<in> set (take l1 r). x \<noteq> 21)"

definition present_2 :: "nat \<Rightarrow> int list \<Rightarrow> bool" where
  "present_2 l1 r = (\<exists>x \<in> set (drop l1 r). x \<noteq> 21)"

definition kept_rows :: "int list list \<Rightarrow> int list list" where
  "kept_rows rows = filter (\<lambda>r. \<not> (\<forall>x \<in> set r. x = 0)) rows"

definition spec_counts :: "nat \<Rightarrow> int list list \<Rightarrow> nat \<times> nat \<times> nat" where
  "spec_counts l1 rows =
     (length (filter (\<lambda>r. present_1 l1 r \<and> present_2 l1 r) (kept_rows rows)),
      length (filter (\<lambda>r. present_1 l1 r \<and> \<not> present_2 l1 r) (kept_rows rows)),
      length (filter (\<lambda>r. present_2 l1 r \<and> \<not> present_1 l1 r) (kept_rows rows)))"

subsection \<open>Strings and paths\<close>

text \<open>\<open>os.path.join\<close> on POSIX, two components at a time.\<close>

definition os_path_join :: "string \<Rightarrow> string \<Rightarrow> string" where
  "os_path_join a b =
     (if b \<noteq> [] \<and> hd b = CHR ''/'' then b
      else if a = [] \<or> last a = CHR ''/'' then a @ b
      else a @ ''/'' @ b)"

text \<open>\<open>sep.join(xs)\<close>\<close>

fun str_join :: "string \<Rightarrow> string list \<Rightarrow> string" where
  "str_join sep [] = []"
| "str_join sep [x] = x"
| "str_join sep (x # y # ys) = x @ sep @ str_join sep (y # ys)"

text \<open>The decimal text of a process identifier, as an f-string renders it.\<close>

fun str_nat :: "nat \<Rightarrow> string" where
  "str_nat n =
     (if n < 10 then [''0123456789'' ! n]
      else str_nat (n div 10) @ [''0123456789'' ! (n mod 10)])"

declare str_nat.simps [simp del]

definition newline :: string where
  "newline = [CHR 0x0A]"

text \<open>\<open>f">{tag}\n{seq}"\<close>\<close>

definition fasta_entry :: "string \<Rightarrow> string \<Rightarrow> string" where
  "fasta_entry tag seq = ''>'' @ tag @ newline @ seq"

subsection \<open>Arguments, configuration, opaque values\<close>

text \<open>
  The fields of the parsed command line that the control flow of the script reads. The
  remaining fields are only handed on to collaborators.
\<close>

record args =
  fasta_dir :: string
  output_dir :: string
  config_preset :: string
  use_precomputed_alignments :: "string option"
  use_single_seq_mode :: bool
  trace_model :: bool
  skip_relaxation :: bool
  save_outputs :: bool
  cif_output :: bool
  experiment_config_json :: string

datatype cfg_value = CBool bool | CInt int | CStr string

text \<open>Python truthiness of a scalar leaf, as \<open>not value\<close> reads it.\<close>

fun truthy :: "cfg_value \<Rightarrow> bool" where
  "truthy (CBool b) = b"
| "truthy (CInt i) = (i \<noteq> 0)"
| "truthy (CStr s) = (s \<noteq> [])"

text \<open>The configuration seen through its flattened keys, such as \<open>data.predict.fixed_size\<close>.\<close>

type_synonym config = "string \<rightharpoonup> cfg_value"

text \<open>
  Modelled from the spec: \<open>update_from_flattened_dict\<close> is a method of the configuration
  object and is not part of the script. The specification describes it as an overlay of the
  scalar leaves of the active configuration with map-overwrite semantics: each entry of the
  flattened document, in order, replaces the value of the leaf stored under its key. An
  entry that names no leaf of the configuration has nothing to overlay and raises
  \<open>KeyError\<close>; the configuration is type-safe, so a value that is not of the leaf's type
  raises \<open>TypeError\<close> (a boolean is an integer in Python, not the other way round).
\<close>

fun compatible :: "cfg_value \<Rightarrow> cfg_value \<Rightarrow> bool" where
  "compatible (CBool _) (CBool _) = True"
| "compatible (CInt _) (CInt _) = True"
| "compatible (CInt _) (CBool _) = True"
| "compatible (CStr _) (CStr _) = True"
| "compatible _ _ = False"

definition set_leaf :: "config \<Rightarrow> string \<times> cfg_value \<Rightarrow> exn + config" where
  "set_leaf config kv =
     (case config (fst kv) of
        None \<Rightarrow> Inl (KeyError (fst kv))
      | Some leaf \<Rightarrow>
          if compatible leaf (snd kv) then Inr (config(fst kv \<mapsto> snd kv))
          else Inl (TypeError (fst kv)))"

fun update_from_flattened_dict :: "config \<Rightarrow> (string \<times> cfg_value) list \<Rightarrow> exn + config" where
  "update_from_flattened_dict config [] = Inr config"
| "update_from_flattened_dict config (kv # rest) =
     (case set_leaf config kv of
        Inl e \<Rightarrow> Inl e
      | Inr config' \<Rightarrow> update_from_flattened_dict config' rest)"

type_synonym model = nat
type_synonym protein = nat

record feature_dict =
  fd_aatype_rows :: "nat option"
  fd_msa :: "tensor option"
  fd_has_counts :: bool
  fd_payload :: nat

record processed_features =
  pf_true_msa :: "tensor option"
  pf_extra_msa :: "tensor option"
  pf_payload :: nat

record model_out =
  out_num_recycles :: "nat option"
  out_payload :: nat

datatype pf_mode = PFMultimer string | PFSingle bool

datatype searcher = Hmmsearch | HHSearch

datatype runner = TemplatesOnly searcher | FullDatabases searcher

text \<open>\<open>x.shape[-1]\<close>\<close>

fun last_dim :: "tensor \<Rightarrow> nat" where
  "last_dim (T2 t) = t2_cols t"
| "last_dim (T3 t) = t3_depth t"

subsection \<open>Collaborators\<close>

text \<open>
  Everything the script calls but does not define. A collaborator that can raise returns
  a sum, or an optional exception when it returns nothing. The first argument of each is the
  number of collaborator calls made so far, so that a collaborator may answer differently
  each time it is called. File arguments are passed as the text the script wrote to them.
  \<open>listdir\<close> is \<open>os.listdir\<close>; \<open>read_fasta\<close> is the opening, reading and parsing
  of one input file; \<open>load_json\<close> is the opening and parsing of the override document.
  \<open>load_models\<close> is the model generator as the list of what its successive steps do:
  each yields a model with its output directory or raises, and a raise ends the iteration.
\<close>

record env =
  getpid :: nat
  listdir :: "nat \<Rightarrow> string \<Rightarrow> exn + string list"
  read_fasta :: "nat \<Rightarrow> string \<Rightarrow> exn + string list \<times> string list"
  load_json :: "nat \<Rightarrow> string \<Rightarrow> exn + (string \<times> cfg_value) list"
  model_config :: "nat \<Rightarrow> string \<Rightarrow> exn + config"
  load_models :: "(exn + model \<times> string) list"
  embedding_run :: "nat \<Rightarrow> string \<Rightarrow> string \<Rightarrow> exn option"
  alignment_run :: "nat \<Rightarrow> runner \<Rightarrow> string \<Rightarrow> string \<Rightarrow> exn option"
  process_fasta :: "nat \<Rightarrow> pf_mode \<Rightarrow> string \<Rightarrow> string \<Rightarrow> exn + feature_dict"
  process_multiseq_fasta :: "nat \<Rightarrow> string \<Rightarrow> string \<Rightarrow> exn + feature_dict"
  pad_feature_dict_seq :: "nat \<Rightarrow> feature_dict \<Rightarrow> nat \<Rightarrow> exn + feature_dict"
  process_features :: "nat \<Rightarrow> feature_dict \<Rightarrow> bool \<Rightarrow> exn + processed_features"
  trace_model_inplace :: "nat \<Rightarrow> model \<Rightarrow> processed_features \<Rightarrow> exn option"
  run_model :: "nat \<Rightarrow> model \<Rightarrow> processed_features \<Rightarrow> string \<Rightarrow> exn + model_out"
  prep_output :: "nat \<Rightarrow> model_out \<Rightarrow> processed_features \<Rightarrow> feature_dict \<Rightarrow> exn + protein"
  protein_to_text :: "nat \<Rightarrow> bool \<Rightarrow> protein \<Rightarrow> exn + string"
  relax_protein :: "nat \<Rightarrow> protein \<Rightarrow> string \<Rightarrow> string \<Rightarrow> exn option"

subsection \<open>State and steps\<close>

datatype content = Text string | Pickled | Table "nat list list"

text \<open>
  What the run leaves behind, in order: an application of the override document to the
  configuration (lines 215 and 220), the entry into a target's pipeline (line 314), the
  call of \<open>generate_feature_dict\<close> (line 320), the store into the feature cache (line 332),
  a tracing of the model with the bucket it logs (line 380), the inference call (line 387)
  and the error line of the handler (line 460).
\<close>

datatype event =
  Overlay string
  | Begin model string
  | Generate string
  | Store string
  | Tracing model string nat
  | Inference model string
  | ErrorLogged string exn

text \<open>
  The file system, the collaborator call counter, the event trace and the three variables
  of \<open>main\<close> that outlive one loop iteration: the feature cache, \<open>rounded_seqlen\<close>
  (unbound until first assigned) and \<open>cur_tracing_interval\<close>.
\<close>

record state =
  files :: "string \<rightharpoonup> content"
  dirs :: "string set"
  clock :: nat
  events :: "event list"
  feature_dicts :: "string \<rightharpoonup> feature_dict"
  rounded_seqlen :: "nat option"
  cur_tracing_interval :: nat

text \<open>
  A step runs on a state and either returns a value or raises; the state it leaves is kept
  in both cases, as an exception does not undo what was done before it.
\<close>

type_synonym 'a step = "state \<Rightarrow> (exn + 'a) \<times> state"

definition ret :: "'a \<Rightarrow> 'a step" where
  "ret x s = (Inr x, s)"

definition raise :: "exn \<Rightarrow> 'a step" where
  "raise e s = (Inl e, s)"

definition bindE :: "'a step \<Rightarrow> ('a \<Rightarrow> 'b step) \<Rightarrow> 'b step" where
  "bindE m f s = (case m s of (Inl e, s') \<Rightarrow> (Inl e, s') | (Inr x, s') \<Rightarrow> f x s')"

definition of_sum :: "exn + 'a \<Rightarrow> 'a step" where
  "of_sum r s = (r, s)"

definition call :: "(nat \<Rightarrow> exn + 'a) \<Rightarrow> 'a step" where
  "call f s = (f (clock s), s\<lparr>clock := Suc (clock s)\<rparr>)"

definition call_unit :: "(nat \<Rightarrow> exn option) \<Rightarrow> unit step" where
  "call_unit f s =
     ((case f (clock s) of None \<Rightarrow> Inr () | Some e \<Rightarrow> Inl e), s\<lparr>clock := Suc (clock s)\<rparr>)"

definition emit :: "event \<Rightarrow> unit step" where
  "emit ev s = (Inr (), s\<lparr>events := events s @ [ev]\<rparr>)"

definition write_file :: "string \<Rightarrow> content \<Rightarrow> unit step" where
  "write_file p c s = (Inr (), s\<lparr>files := (files s)(p \<mapsto> c)\<rparr>)"

definition remove_file :: "string \<Rightarrow> unit step" where
  "remove_file p s =
     (if files s p = None then (Inl (OSError p), s)
      else (Inr (), s\<lparr>files := (files s)(p := None)\<rparr>))"

definition makedirs :: "string \<Rightarrow> unit step" where
  "makedirs p s = (Inr (), s\<lparr>dirs := insert p (dirs s)\<rparr>)"

subsection \<open>Alignment precomputation, lines 98 to 153\<close>

definition is_multimer_preset :: "string \<Rightarrow> bool" where
  "is_multimer_preset preset = sublist ''multimer'' preset"

definition tmp_fasta_path :: "env \<Rightarrow> args \<Rightarrow> string" where
  "tmp_fasta_path env args =
     os_path_join (output_dir args) (''tmp_'' @ str_nat (getpid env) @ ''.fasta'')"

text \<open>One iteration of the loop over \<open>zip(tags, seqs)\<close>.\<close>

definition align_one :: "env \<Rightarrow> args \<Rightarrow> string \<Rightarrow> string \<Rightarrow> string \<Rightarrow> unit step" where
  "align_one env args alignment_dir tag seq =
     bindE (write_file (tmp_fasta_path env args) (Text (fasta_entry tag seq))) (\<lambda>_.
     bindE (if use_precomputed_alignments args = None
            then
              bindE (makedirs (os_path_join alignment_dir tag)) (\<lambda>_.
              let template_searcher =
                    (if is_multimer_preset (config_preset args) then Hmmsearch else HHSearch)
              in if use_single_seq_mode args
                 then
                   bindE (call_unit (\<lambda>k. embedding_run env k (fasta_entry tag seq) alignment_dir)) (\<lambda>_.
                   call_unit (\<lambda>k. alignment_run env k (TemplatesOnly template_searcher)
                                     (fasta_entry tag seq) (os_path_join alignment_dir tag)))
                 else
                   call_unit (\<lambda>k. alignment_run env k (FullDatabases template_searcher)
                                     (fasta_entry tag seq) (os_path_join alignment_dir tag)))
            else ret ()) (\<lambda>_.
     remove_file (tmp_fasta_path env args)))"

fun align_loop :: "env \<Rightarrow> args \<Rightarrow> string \<Rightarrow> (string \<times> string) list \<Rightarrow> unit step" where
  "align_loop env args alignment_dir [] = ret ()"
| "align_loop env args alignment_dir ((tag, seq) # rest) =
     bindE (align_one env args alignment_dir tag seq) (\<lambda>_.
     align_loop env args alignment_dir rest)"

definition precompute_alignments ::
  "string list \<Rightarrow> string list \<Rightarrow> string \<Rightarrow> env \<Rightarrow> args \<Rightarrow> unit step" where
  "precompute_alignments tags seqs alignment_dir env args =
     align_loop env args alignment_dir (zip tags seqs)"

subsection \<open>Bucket rounding, lines 65 and 156\<close>

definition TRACING_INTERVAL :: nat where
  "TRACING_INTERVAL = 50"

text \<open>
  \<open>int(math.ceil(seqlen / TRACING_INTERVAL)) * TRACING_INTERVAL\<close>; the quotient is
  computed in floating point, which is exact for every length a sequence can have.
\<close>

definition round_up_seqlen :: "nat \<Rightarrow> nat" where
  "round_up_seqlen seqlen =
     ((seqlen + (TRACING_INTERVAL - 1)) div TRACING_INTERVAL) * TRACING_INTERVAL"

subsection \<open>Feature dictionary generation, lines 160 to 192\<close>

definition multi_fasta :: "string list \<Rightarrow> string list \<Rightarrow> string" where
  "multi_fasta tags seqs = str_join newline (map (\<lambda>(tag, seq). fasta_entry tag seq) (zip tags seqs))"

definition generate_feature_dict ::
  "string list \<Rightarrow> string list \<Rightarrow> string \<Rightarrow> env \<Rightarrow> args \<Rightarrow> string \<Rightarrow> feature_dict step" where
  "generate_feature_dict tags seqs alignment_dir env args template_save_dir =
     bindE
       (if is_multimer_preset (config_preset args)
        then
          bindE (write_file (tmp_fasta_path env args) (Text (multi_fasta tags seqs))) (\<lambda>_.
          call (\<lambda>k. process_fasta env k (PFMultimer template_save_dir)
                       (multi_fasta tags seqs) alignment_dir))
        else if length seqs = 1
        then
          (case tags of
             [] \<Rightarrow> raise IndexError
           | tag # _ \<Rightarrow>
               bindE (write_file (tmp_fasta_path env args) (Text (fasta_entry tag (hd seqs)))) (\<lambda>_.
               call (\<lambda>k. process_fasta env k (PFSingle (use_single_seq_mode args))
                            (fasta_entry tag (hd seqs)) (os_path_join alignment_dir tag))))
        else
          bindE (write_file (tmp_fasta_path env args) (Text (multi_fasta tags seqs))) (\<lambda>_.
          call (\<lambda>k. process_multiseq_fasta env k (multi_fasta tags seqs) alignment_dir)))
       (\<lambda>feature_dict.
     bindE (remove_file (tmp_fasta_path env args)) (\<lambda>_.
     ret feature_dict))"

subsection \<open>Target discovery, lines 195 and 272 to 297\<close>

definition list_files_with_extensions :: "env \<Rightarrow> string \<Rightarrow> string list \<Rightarrow> string list step" where
  "list_files_with_extensions env dir extensions =
     bindE (call (\<lambda>k. listdir env k dir)) (\<lambda>names.
     ret (filter (\<lambda>f. list_ex (\<lambda>e. suffix e f) extensions) names))"

text \<open>
  A target as the sorted list holds it: \<open>((tag, tags), seqs, file_name)\<close>.
\<close>

type_synonym target = "(string \<times> string list) \<times> string list \<times> string"

text \<open>
  The loop over the input files, each read and parsed in turn. The script appends to three
  lists in step and zips them afterwards; the model builds the list of triples. A file with
  a chain count other than one is skipped outside multimer mode.
\<close>

fun gather_targets :: "env \<Rightarrow> args \<Rightarrow> bool \<Rightarrow> string list \<Rightarrow> target list step" where
  "gather_targets env args is_multimer [] = ret []"
| "gather_targets env args is_multimer (fasta_file # rest) =
     bindE (call (\<lambda>k. read_fasta env k (os_path_join (fasta_dir args) fasta_file))) (\<lambda>parsed.
     if \<not> is_multimer \<and> length (fst parsed) \<noteq> 1
     then gather_targets env args is_multimer rest
     else
       bindE (gather_targets env args is_multimer rest) (\<lambda>targets.
       ret (((str_join ''-'' (fst parsed), fst parsed), snd parsed,
             takeWhile (\<lambda>c. c \<noteq> CHR ''.'') fasta_file) # targets)))"

definition seq_sort_fn :: "target \<Rightarrow> nat" where
  "seq_sort_fn target = sum_list (map length (fst (snd target)))"

text \<open>\<open>sorted\<close> is stable, as is \<open>sort_key\<close>.\<close>

definition sorted_targets :: "env \<Rightarrow> args \<Rightarrow> target list step" where
  "sorted_targets env args =
     bindE (list_files_with_extensions env (fasta_dir args) [''.fasta'', ''.fa'']) (\<lambda>fasta_files.
     bindE (gather_targets env args (is_multimer_preset (config_preset args)) fasta_files) (\<lambda>targets.
     ret (sort_key seq_sort_fn targets)))"

subsection \<open>The pipeline of one target, lines 307 to 458\<close>

definition final_output_dir_of :: "args \<Rightarrow> string \<Rightarrow> string \<Rightarrow> string" where
  "final_output_dir_of args output_directory output_name =
     os_path_join (os_path_join output_directory (config_preset args)) output_name"

definition unrelaxed_output_path :: "args \<Rightarrow> string \<Rightarrow> string" where
  "unrelaxed_output_path args final_output_dir =
     os_path_join final_output_dir (if cif_output args then ''unrelaxed.cif'' else ''unrelaxed.pdb'')"

definition assign_rounded_seqlen :: "nat \<Rightarrow> unit step" where
  "assign_rounded_seqlen r s = (Inr (), s\<lparr>rounded_seqlen := Some r\<rparr>)"

definition assign_cur_tracing_interval :: "nat \<Rightarrow> unit step" where
  "assign_cur_tracing_interval r s = (Inr (), s\<lparr>cur_tracing_interval := r\<rparr>)"

definition store_features :: "string \<Rightarrow> feature_dict \<Rightarrow> unit step" where
  "store_features tag fd s =
     (Inr (), s\<lparr>feature_dicts := (feature_dicts s)(tag \<mapsto> fd), events := events s @ [Store tag]\<rparr>)"

definition lookup_key :: "string \<Rightarrow> 'a option \<Rightarrow> 'a step" where
  "lookup_key k v = (case v of None \<Rightarrow> raise (KeyError k) | Some x \<Rightarrow> ret x)"

text \<open>
  Lines 318 to 332: the cache lookup, and on a miss the generation, the padding under
  tracing (which assigns \<open>rounded_seqlen\<close>) and the store.
\<close>

definition cached_features ::
  "env \<Rightarrow> args \<Rightarrow> string \<Rightarrow> string \<Rightarrow> string list \<Rightarrow> string list \<Rightarrow> string \<Rightarrow> feature_dict step" where
  "cached_features env args alignment_dir tag tags seqs final_output_dir s =
     (case feature_dicts s tag of
        Some feature_dict \<Rightarrow> ret feature_dict s
      | None \<Rightarrow>
          bindE (emit (Generate tag)) (\<lambda>_.
          bindE (generate_feature_dict tags seqs alignment_dir env args final_output_dir) (\<lambda>fd.
          bindE (if trace_model args
                 then
                   (case fd_aatype_rows fd of
                      None \<Rightarrow> raise (KeyError ''aatype'')
                    | Some n \<Rightarrow>
                        bindE (assign_rounded_seqlen (round_up_seqlen n)) (\<lambda>_.
                        call (\<lambda>k. pad_feature_dict_seq env k fd (round_up_seqlen n))))
                 else ret fd) (\<lambda>feature_dict.
          bindE (store_features tag feature_dict) (\<lambda>_.
          ret feature_dict)))) s)"

text \<open>Line 351: \<open>seq_length_1, seq_length_2 = map(len, seqs)\<close>.\<close>

definition unpack_lengths :: "string list \<Rightarrow> (nat \<times> nat) step" where
  "unpack_lengths seqs =
     (case map length seqs of
        [a, b] \<Rightarrow> ret (a, b)
      | [] \<Rightarrow> raise (ValueError ''not enough values to unpack'')
      | [a] \<Rightarrow> raise (ValueError ''not enough values to unpack'')
      | _ \<Rightarrow> raise (ValueError ''too many values to unpack''))"

text \<open>\<open>pd.concat(..., axis=1)\<close> of three frames over the same index.\<close>

definition concat_stats ::
  "(nat \<times> nat \<times> nat) list \<Rightarrow> (nat \<times> nat \<times> nat) list \<Rightarrow> (nat \<times> nat \<times> nat) list \<Rightarrow> nat list list" where
  "concat_stats a b c =
     map (\<lambda>((a1, a2, a3), (b1, b2, b3), (c1, c2, c3)). [a1, a2, a3, b1, b2, b3, c1, c2, c3])
       (zip a (zip b c))"

text \<open>Lines 344 to 366; the tensors are returned with the table for the later stages.\<close>

definition msa_stats_stage ::
  "feature_dict \<Rightarrow> processed_features \<Rightarrow> string list \<Rightarrow> (tensor \<times> tensor \<times> nat list list) step" where
  "msa_stats_stage feature_dict processed seqs =
     bindE (lookup_key ''msa'' (fd_msa feature_dict)) (\<lambda>total_msas.
     bindE (lookup_key ''true_msa'' (pf_true_msa processed)) (\<lambda>msas.
     bindE (lookup_key ''extra_msa'' (pf_extra_msa processed)) (\<lambda>extra_msas.
     bindE (unpack_lengths seqs) (\<lambda>(seq_length_1, seq_length_2).
     bindE (of_sum (get_msa_stats total_msas seq_length_1 seq_length_2 (last_dim msas) False ''total_'')) (\<lambda>a.
     bindE (of_sum (get_msa_stats msas seq_length_1 seq_length_2 (last_dim msas) False [])) (\<lambda>b.
     bindE (of_sum (get_msa_stats extra_msas seq_length_1 seq_length_2 (last_dim msas) False ''extra_'')) (\<lambda>c.
     ret (msas, extra_msas, concat_stats a b c))))))))"

text \<open>
  Lines 378 to 385. \<open>rounded_seqlen\<close> is read as the variable stands: it was assigned by
  the last cache miss under tracing, in this iteration or an earlier one.
\<close>

definition tracing_stage :: "env \<Rightarrow> args \<Rightarrow> model \<Rightarrow> string \<Rightarrow> processed_features \<Rightarrow> unit step" where
  "tracing_stage env args mdl tag processed s =
     (if trace_model args
      then
        (case rounded_seqlen s of
           None \<Rightarrow> raise (UnboundLocalError ''rounded_seqlen'') s
         | Some r \<Rightarrow>
             if r > cur_tracing_interval s
             then
               bindE (emit (Tracing mdl tag r)) (\<lambda>_.
               bindE (call_unit (\<lambda>k. trace_model_inplace env k mdl processed)) (\<lambda>_.
               assign_cur_tracing_interval r)) s
             else ret () s)
      else ret () s)"

text \<open>Lines 403 to 412: the file is opened, and so created, before the encoder runs.\<close>

definition write_unrelaxed :: "env \<Rightarrow> args \<Rightarrow> string \<Rightarrow> protein \<Rightarrow> unit step" where
  "write_unrelaxed env args final_output_dir unrelaxed_protein =
     bindE (write_file (unrelaxed_output_path args final_output_dir) (Text [])) (\<lambda>_.
     bindE (call (\<lambda>k. protein_to_text env k (cif_output args) unrelaxed_protein)) (\<lambda>txt.
     write_file (unrelaxed_output_path args final_output_dir) (Text txt)))"

text \<open>\<open>x[:, :, :k]\<close> needs a third dimension.\<close>

definition slice_recycles :: "tensor \<Rightarrow> unit step" where
  "slice_recycles t = (case t of T2 _ \<Rightarrow> raise IndexError | T3 _ \<Rightarrow> ret ())"

text \<open>
  Lines 427 to 458. A missing metric key of the model output is the absence of
  \<open>out_num_recycles\<close>; the pickled files are written without their content.
\<close>

definition save_outputs_stage ::
  "string \<Rightarrow> feature_dict \<Rightarrow> model_out \<Rightarrow> tensor \<Rightarrow> tensor \<Rightarrow> nat list list \<Rightarrow> unit step" where
  "save_outputs_stage final_output_dir feature_dict out msas extra_msas msa_stats =
     bindE (makedirs (os_path_join final_output_dir ''analysis'')) (\<lambda>_.
     bindE (makedirs (os_path_join final_output_dir ''tmp'')) (\<lambda>_.
     bindE (lookup_key ''num_recycles'' (out_num_recycles out)) (\<lambda>num_recycles.
     bindE (if fd_has_counts feature_dict then ret () else raise (KeyError ''num_alignments'')) (\<lambda>_.
     bindE (write_file (os_path_join (os_path_join final_output_dir ''analysis'') ''metric_dict.pkl'')
              Pickled) (\<lambda>_.
     bindE (write_file (os_path_join (os_path_join final_output_dir ''analysis'') ''msa_stats.csv'')
              (Table (take num_recycles msa_stats))) (\<lambda>_.
     bindE (slice_recycles msas) (\<lambda>_.
     bindE (slice_recycles extra_msas) (\<lambda>_.
     write_file (os_path_join (os_path_join final_output_dir ''tmp'') ''raw_msa.pkl'') Pickled))))))))"

text \<open>
  The body of the \<open>try\<close> block, in parts: the statements after the feature dictionary
  is in hand (lines 334 to 458), the statements before the cache is consulted (lines 310 to
  316), and the whole body.
\<close>

definition target_tail ::
  "env \<Rightarrow> args \<Rightarrow> bool \<Rightarrow> model \<Rightarrow> string \<Rightarrow> string \<Rightarrow> string list \<Rightarrow> string \<Rightarrow> string
     \<Rightarrow> feature_dict \<Rightarrow> unit step" where
  "target_tail env args is_multimer mdl output_directory tag seqs file_name final_output_dir
       feature_dict =
     bindE (call (\<lambda>k. process_features env k feature_dict is_multimer)) (\<lambda>processed.
     bindE (msa_stats_stage feature_dict processed seqs) (\<lambda>(msas, extra_msas, msa_stats).
     bindE (tracing_stage env args mdl tag processed) (\<lambda>_.
     bindE (emit (Inference mdl tag)) (\<lambda>_.
     bindE (call (\<lambda>k. run_model env k mdl processed tag)) (\<lambda>out.
     bindE (call (\<lambda>k. prep_output env k out processed feature_dict)) (\<lambda>unrelaxed_protein.
     bindE (write_unrelaxed env args final_output_dir unrelaxed_protein) (\<lambda>_.
     bindE (if \<not> skip_relaxation args
            then call_unit (\<lambda>k. relax_protein env k unrelaxed_protein output_directory file_name)
            else ret ()) (\<lambda>_.
     if save_outputs args
     then save_outputs_stage final_output_dir feature_dict out msas extra_msas msa_stats
     else ret ()))))))))"

definition target_head ::
  "env \<Rightarrow> args \<Rightarrow> string \<Rightarrow> model \<Rightarrow> string list \<Rightarrow> string list \<Rightarrow> string \<Rightarrow> string
     \<Rightarrow> unit step" where
  "target_head env args alignment_dir mdl tags seqs file_name final_output_dir =
     bindE (makedirs final_output_dir) (\<lambda>_.
     bindE (emit (Begin mdl file_name)) (\<lambda>_.
     precompute_alignments tags seqs alignment_dir env args))"

definition target_body ::
  "env \<Rightarrow> args \<Rightarrow> bool \<Rightarrow> string \<Rightarrow> model \<times> string \<Rightarrow> target \<Rightarrow> unit step" where
  "target_body env args is_multimer alignment_dir m target =
     (case (m, target) of ((mdl, output_directory), ((tag, tags), seqs, file_name)) \<Rightarrow>
        let final_output_dir = final_output_dir_of args output_directory file_name in
        bindE (target_head env args alignment_dir mdl tags seqs file_name final_output_dir) (\<lambda>_.
        bindE (cached_features env args alignment_dir tag tags seqs final_output_dir) (\<lambda>feature_dict.
        target_tail env args is_multimer mdl output_directory tag seqs file_name final_output_dir
          feature_dict)))"

subsection \<open>The loops and the handler, lines 303 to 306 and 459 to 463\<close>

text \<open>
  \<open>try: ... except Exception: ...; continue\<close>: an exception of the body is logged and the
  iteration ends with the state the body left.
\<close>

definition run_target ::
  "env \<Rightarrow> args \<Rightarrow> bool \<Rightarrow> string \<Rightarrow> model \<times> string \<Rightarrow> target \<Rightarrow> state \<Rightarrow> state" where
  "run_target env args is_multimer alignment_dir m target s =
     (case target_body env args is_multimer alignment_dir m target s of
        (Inr _, s') \<Rightarrow> s'
      | (Inl e, s') \<Rightarrow> s'\<lparr>events := events s' @ [ErrorLogged (snd (snd target)) e]\<rparr>)"

definition run_targets ::
  "env \<Rightarrow> args \<Rightarrow> bool \<Rightarrow> string \<Rightarrow> model \<times> string \<Rightarrow> target list \<Rightarrow> state \<Rightarrow> state" where
  "run_targets env args is_multimer alignment_dir m targets s =
     fold (run_target env args is_multimer alignment_dir m) targets s"

text \<open>
  The loop over the model generator. A step of the generator that raises does so outside
  the \<open>try\<close> block, and the exception leaves the loop.
\<close>

fun run_models ::
  "env \<Rightarrow> args \<Rightarrow> bool \<Rightarrow> string \<Rightarrow> (exn + model \<times> string) list \<Rightarrow> target list \<Rightarrow> unit step" where
  "run_models env args is_multimer alignment_dir [] targets = ret ()"
| "run_models env args is_multimer alignment_dir (Inl e # rest) targets = raise e"
| "run_models env args is_multimer alignment_dir (Inr m # rest) targets =
     bindE (\<lambda>s. (Inr (), run_targets env args is_multimer alignment_dir m targets
                            (s\<lparr>cur_tracing_interval := 0\<rparr>))) (\<lambda>_.
     run_models env args is_multimer alignment_dir rest targets)"

text \<open>The models the generator yields before it raises or ends.\<close>

fun yielded :: "(exn + 'a) list \<Rightarrow> 'a list" where
  "yielded [] = []"
| "yielded (Inl e # rest) = []"
| "yielded (Inr x # rest) = x # yielded rest"

subsection \<open>Views of the state\<close>

text \<open>
  The events that mark an application of the override document, the entry into a pipeline
  and the use of the cache, and the part of the state made of the cache and those events.
\<close>

fun is_marker :: "event \<Rightarrow> bool" where
  "is_marker (Overlay _) = True"
| "is_marker (Begin _ _) = True"
| "is_marker (Generate _) = True"
| "is_marker (Store _) = True"
| "is_marker _ = False"

fun is_overlay :: "event \<Rightarrow> bool" where
  "is_overlay (Overlay _) = True"
| "is_overlay _ = False"

fun is_begin :: "event \<Rightarrow> bool" where
  "is_begin (Begin _ _) = True"
| "is_begin _ = False"

definition markers :: "state \<Rightarrow> event list" where
  "markers s = filter is_marker (events s)"

definition cache_view :: "state \<Rightarrow> (string \<rightharpoonup> feature_dict) \<times> event list" where
  "cache_view s = (feature_dicts s, markers s)"

definition target_tag :: "target \<Rightarrow> string" where
  "target_tag t = fst (fst t)"

definition target_file :: "target \<Rightarrow> string" where
  "target_file t = snd (snd t)"

text \<open>
  A trace is settled when no generation and no second store for a tag follows a store for
  that tag.
\<close>

definition settled :: "event list \<Rightarrow> bool" where
  "settled es = (\<forall>k a b. es = a @ Store k # b \<longrightarrow> Generate k \<notin> set b \<and> Store k \<notin> set b)"

text \<open>
  The invariant of the loops: the markers are settled and every tag with a store event is
  in the cache.
\<close>

definition cache_inv :: "state \<Rightarrow> bool" where
  "cache_inv s = (settled (markers s) \<and> (\<forall>k. Store k \<in> set (markers s) \<longrightarrow> feature_dicts s k \<noteq> None))"

text \<open>
  What startup leaves alone: the files, the variables of the loops and every event that is
  not an application of the override document.
\<close>

definition frame ::
  "state \<Rightarrow> (string \<rightharpoonup> content) \<times> (string \<rightharpoonup> feature_dict) \<times> nat option \<times> nat \<times> event list" where
  "frame s =
     (files s, feature_dicts s, rounded_seqlen s, cur_tracing_interval s,
      filter (\<lambda>e. \<not> is_overlay e) (events s))"

text \<open>A step keeps a view when the view is the same after the step, raised or not.\<close>

definition keeps :: "(state \<Rightarrow> 'v) \<Rightarrow> 'a step \<Rightarrow> bool" where
  "keeps g m = (\<forall>s. g (snd (m s)) = g s)"

subsection \<open>Startup and \<open>main\<close>, lines 199 to 301\<close>

text \<open>
  Lines 212 to 215, and again 217 to 220: the document is opened and parsed, then applied.
\<close>

definition overlay_block :: "env \<Rightarrow> args \<Rightarrow> config \<Rightarrow> config step" where
  "overlay_block env args config =
     (if experiment_config_json args \<noteq> []
      then
        bindE (call (\<lambda>k. load_json env k (experiment_config_json args))) (\<lambda>custom_config_dict.
        bindE (emit (Overlay (experiment_config_json args))) (\<lambda>_.
        of_sum (update_from_flattened_dict config custom_config_dict)))
      else ret config)"

text \<open>Lines 206 to 220: the preset's configuration with the overlay block run twice.\<close>

definition startup_config :: "env \<Rightarrow> args \<Rightarrow> config step" where
  "startup_config env args =
     bindE (call (\<lambda>k. model_config env k (config_preset args))) (\<lambda>config.
     bindE (overlay_block env args config) (\<lambda>config.
     overlay_block env args config))"

text \<open>Lines 222 to 224.\<close>

definition check_tracing :: "args \<Rightarrow> config \<Rightarrow> exn + unit" where
  "check_tracing args config =
     (if trace_model args
      then (case config ''data.predict.fixed_size'' of
              None \<Rightarrow> Inl (AttributeError ''fixed_size'')
            | Some v \<Rightarrow>
                if \<not> truthy v
                then Inl (ValueError ''Tracing requires that fixed_size mode be enabled in the config'')
                else Inr ())
      else Inr ())"

definition effective_args :: "args \<Rightarrow> args" where
  "effective_args args =
     (if prefix ''seq'' (config_preset args) then args\<lparr>use_single_seq_mode := True\<rparr> else args)"

definition alignment_dir_of :: "args \<Rightarrow> string" where
  "alignment_dir_of args =
     (case use_precomputed_alignments args of
        None \<Rightarrow> os_path_join (output_dir args) ''alignments''
      | Some d \<Rightarrow> d)"

text \<open>
  The statements of \<open>main\<close> before the loops, lines 201 to 297: the output directory, the
  configuration, the tracing check and the discovery of the targets. None of them is inside
  a \<open>try\<close>.
\<close>

definition startup :: "env \<Rightarrow> args \<Rightarrow> target list step" where
  "startup env args =
     bindE (makedirs (output_dir args)) (\<lambda>_.
     bindE (startup_config env args) (\<lambda>config.
     bindE (of_sum (check_tracing args config)) (\<lambda>_.
     sorted_targets env args)))"

text \<open>
  \<open>main\<close> as a step: it returns normally or lets an exception out, and the final state
  holds what the run did. The variables of \<open>main\<close> start unbound; the feature cache is
  empty (line 298).
\<close>

definition initial :: "state \<Rightarrow> state" where
  "initial s0 = s0\<lparr>feature_dicts := Map.empty, rounded_seqlen := None, cur_tracing_interval := 0\<rparr>"

definition main :: "env \<Rightarrow> args \<Rightarrow> unit step" where
  "main env args0 s0 =
     (let args = effective_args args0 in
      bindE (startup env args) (\<lambda>targets.
      run_models env args (is_multimer_preset (config_preset args)) (alignment_dir_of args)
        (load_models env) targets)) (initial s0)"

subsection \<open>Concrete runs\<close>

text \<open>
  A well-behaved set of collaborators. The feature library reports as many residues as the
  FASTA text holds outside its header lines, padding widens the arrays to the bucket, the
  feature pipeline adds a recycling dimension of depth one, and nothing raises.
\<close>

definition empty_state :: state where
  "empty_state =
     \<lparr>files = Map.empty, dirs = {}, clock = 0, events = [], feature_dicts = Map.empty,
      rounded_seqlen = None, cur_tracing_interval = 0\<rparr>"

fun residues_of :: "bool \<Rightarrow> string \<Rightarrow> nat" where
  "residues_of in_header [] = 0"
| "residues_of in_header (c # cs) =
     (if c = CHR 0x0A then residues_of False cs
      else if c = CHR ''>'' then residues_of True cs
      else if in_header then residues_of True cs
      else Suc (residues_of False cs))"

definition plain_features :: "nat \<Rightarrow> feature_dict" where
  "plain_features n =
     \<lparr>fd_aatype_rows = Some n, fd_msa = Some (T2 \<lparr>t2_cols = n, t2_rows = []\<rparr>),
      fd_has_counts = True, fd_payload = n\<rparr>"

definition plain_processed :: "feature_dict \<Rightarrow> processed_features" where
  "plain_processed fd =
     \<lparr>pf_true_msa = Some (T3 \<lparr>t3_cols = fd_payload fd, t3_depth = 1, t3_rows = []\<rparr>),
      pf_extra_msa = Some (T3 \<lparr>t3_cols = fd_payload fd, t3_depth = 1, t3_rows = []\<rparr>),
      pf_payload = fd_payload fd\<rparr>"

text \<open>Two leaves of the preset's configuration, as the library ships them.\<close>

definition base_config :: config where
  "base_config = [''data.predict.fixed_size'' \<mapsto> CBool True, ''globals.chunk_size'' \<mapsto> CInt 4]"

definition good_env :: "string list \<Rightarrow> (string \<Rightarrow> string list \<times> string list) \<Rightarrow> (model \<times> string) list \<Rightarrow> env" where
  "good_env names parsed models =
     \<lparr>getpid = 4242,
      listdir = (\<lambda>_ _. Inr names),
      read_fasta = (\<lambda>_ p. Inr (parsed p)),
      load_json = (\<lambda>_ p. Inl (OSError p)),
      model_config = (\<lambda>_ _. Inr base_config),
      load_models = map Inr models,
      embedding_run = (\<lambda>_ _ _. None),
      alignment_run = (\<lambda>_ _ _ _. None),
      process_fasta = (\<lambda>_ _ text _. Inr (plain_features (residues_of False text))),
      process_multiseq_fasta = (\<lambda>_ text _. Inr (plain_features (residues_of False text))),
      pad_feature_dict_seq = (\<lambda>_ fd r. Inr (plain_features r)),
      process_features = (\<lambda>_ fd _. Inr (plain_processed fd)),
      trace_model_inplace = (\<lambda>_ _ _. None),
      run_model = (\<lambda>_ _ _ _. Inr \<lparr>out_num_recycles = Some 1, out_payload = 0\<rparr>),
      prep_output = (\<lambda>_ _ _ _. Inr 0),
      protein_to_text = (\<lambda>_ _ _. Inr ''MODEL''),
      relax_protein = (\<lambda>_ _ _ _. None)\<rparr>"

definition base_args :: args where
  "base_args =
     \<lparr>fasta_dir = ''in'', output_dir = ''out'', config_preset = ''model_1'',
      use_precomputed_alignments = None, use_single_seq_mode = False, trace_model = False,
      skip_relaxation = True, save_outputs = False, cif_output = False,
      experiment_config_json = []\<rparr>"

text \<open>One input file with a single chain of fifty residues, and one model.\<close>

definition monomer_env :: env where
  "monomer_env =
     good_env [''t1.fasta''] (\<lambda>_. ([''T1''], [replicate 50 (CHR ''A'')])) [(1, ''out'')]"

text \<open>
  A planted alignment for one recycling iteration over chains of two columns each: three
  rows present in both chains, two present in chain 1 only, and one row of padding.
\<close>

definition planted_rows :: "int list list" where
  "planted_rows =
     [[1, 2, 3, 4], [5, 21, 21, 6], [7, 8, 9, 21], [1, 1, 21, 21], [21, 3, 21, 21], [0, 0, 0, 0]]"

definition planted_msa :: tensor where
  "planted_msa = T3 \<lparr>t3_cols = 4, t3_depth = 1, t3_rows = map (map (\<lambda>v. [v])) planted_rows\<rparr>"

text \<open>
  Two input files with two chains each, listed with the longer target first: target
  \<open>a\<close> has 20 + 30 residues and target \<open>b\<close> has 40 + 60.
\<close>

definition dimer_parsed :: "string \<Rightarrow> string list \<times> string list" where
  "dimer_parsed p =
     (if p = ''in/b.fasta''
      then ([''B1'', ''B2''], [replicate 40 (CHR ''G''), replicate 60 (CHR ''S'')])
      else ([''A1'', ''A2''], [replicate 20 (CHR ''G''), replicate 30 (CHR ''S'')]))"

definition dimer_env :: "(model \<times> string) list \<Rightarrow> env" where
  "dimer_env models = good_env [''b.fasta'', ''notes.txt'', ''a.fasta''] dimer_parsed models"

definition multimer_args :: args where
  "multimer_args = base_args\<lparr>config_preset := ''model_1_multimer_v3''\<rparr>"

text \<open>The same collaborators with an alignment runner and a feature processor that raise.\<close>

definition failing_tools_env :: env where
  "failing_tools_env =
     monomer_env
       \<lparr>alignment_run := (\<lambda>_ _ _ _. Some (CollaboratorError ''jackhmmer'')),
        process_fasta := (\<lambda>_ _ _ _. Inl (CollaboratorError ''process_fasta''))\<rparr>"

text \<open>
  A run with an override document, and a run that asks for tracing on a configuration
  whose fixed-size mode is off.
\<close>

definition overlay_doc :: "(string \<times> cfg_value) list" where
  "overlay_doc = [(''data.predict.fixed_size'', CBool False), (''globals.chunk_size'', CInt 128)]"

definition overlaid_config :: config where
  "overlaid_config = [''data.predict.fixed_size'' \<mapsto> CBool False, ''globals.chunk_size'' \<mapsto> CInt 128]"

definition overlay_env :: env where
  "overlay_env =
     monomer_env\<lparr>load_json := (\<lambda>_ p. if p = ''cfg.json'' then Inr overlay_doc else Inl (OSError p))\<rparr>"

definition overlay_args :: args where
  "overlay_args = base_args\<lparr>experiment_config_json := ''cfg.json''\<rparr>"

definition tracing_args :: args where
  "tracing_args = overlay_args\<lparr>trace_model := True\<rparr>"

text \<open>Tracing requested, two models, the two dimer targets.\<close>

definition two_models :: "(model \<times> string) list" where
  "two_models = [(1, ''out''), (2, ''out'')]"

definition traced_args :: args where
  "traced_args = multimer_args\<lparr>trace_model := True\<rparr>"

fun is_tracing :: "event \<Rightarrow> bool" where
  "is_tracing (Tracing _ _ _) = True"
| "is_tracing (Inference _ _) = True"
| "is_tracing _ = False"

text \<open>The three targets of the concrete runs, as discovery builds them.\<close>

definition target_t1 :: target where
  "target_t1 = ((''T1'', [''T1'']), [replicate 50 (CHR ''A'')], ''t1'')"

definition target_a :: target where
  "target_a = ((''A1-A2'', [''A1'', ''A2'']), [replicate 20 (CHR ''G''), replicate 30 (CHR ''S'')], ''a'')"

definition target_b :: target where
  "target_b = ((''B1-B2'', [''B1'', ''B2'']), [replicate 40 (CHR ''G''), replicate 60 (CHR ''S'')], ''b'')"

text \<open>One single-chain target, two models, and a feature processor that raises.\<close>

definition failing_assembly_env :: env where
  "failing_assembly_env =
     (good_env [''t1.fasta''] (\<lambda>_. ([''T1''], [replicate 50 (CHR ''A'')])) two_models)
       \<lparr>process_fasta := (\<lambda>_ _ _ _. Inl (CollaboratorError ''process_fasta''))\<rparr>"




text \<open>
  An input directory that cannot be listed, a model generator that raises when it loads its
  second model, and a padding step that raises (with tracing requested, two models).
\<close>

definition unlistable_env :: env where
  "unlistable_env = monomer_env\<lparr>listdir := (\<lambda>_ d. Inl (OSError d))\<rparr>"

definition broken_generator_env :: env where
  "broken_generator_env =
     monomer_env\<lparr>load_models := [Inr (1, ''out''), Inl (CollaboratorError ''checkpoint'')]\<rparr>"



subsection \<open>Steps\<close>

lemmas step_defs = bindE_def ret_def raise_def of_sum_def call_def call_unit_def emit_def
  write_file_def remove_file_def makedirs_def

lemma keepsD: "keeps g m \<Longrightarrow> m s = (r, s') \<Longrightarrow> g s' = g s"
  by (metis keeps_def snd_conv)

lemma bindE_cases:
  assumes "bindE m f s = (r, s')"
  obtains (raised) e where "m s = (Inl e, s')" "r = Inl e"
        | (returned) x s1 where "m s = (Inr x, s1)" "f x s1 = (r, s')"
  using assms by (auto simp: bindE_def split: prod.splits sum.splits)

lemma keeps_bindE: "keeps g m \<Longrightarrow> (\<And>x. keeps g (f x)) \<Longrightarrow> keeps g (bindE m f)"
  unfolding keeps_def bindE_def
  by (auto split: prod.splits sum.splits) (metis snd_conv)+

lemma keeps_pure:
  "keeps g (ret x)" "keeps g (raise e)" "keeps g (of_sum r)" "keeps g (lookup_key k v)"
  "keeps g (unpack_lengths seqs)" "keeps g (slice_recycles t)"
  by (auto simp: keeps_def ret_def raise_def of_sum_def lookup_key_def unpack_lengths_def
      slice_recycles_def split: option.splits list.splits tensor.splits)

lemma keeps_if: "keeps g a \<Longrightarrow> keeps g b \<Longrightarrow> keeps g (if c then a else b)"
  by simp

lemma keeps_case_prod: "(\<And>a b. keeps g (f a b)) \<Longrightarrow> keeps g (case_prod f p)"
  by (cases p) simp

lemma keeps_case_prod3: "(\<And>a b c. keeps g (f a b c)) \<Longrightarrow> keeps g (case p of (a, b, c) \<Rightarrow> f a b c)"
  by (cases p) simp


lemma keeps_call: "(\<And>s k. g (s\<lparr>clock := k\<rparr>) = g s) \<Longrightarrow> keeps g (call f)"
  by (simp add: keeps_def call_def)

lemma keeps_makedirs: "(\<And>s d. g (s\<lparr>dirs := d\<rparr>) = g s) \<Longrightarrow> keeps g (makedirs p)"
  by (simp add: keeps_def makedirs_def)

lemma keeps_emit: "(\<And>s. g (s\<lparr>events := events s @ [ev]\<rparr>) = g s) \<Longrightarrow> keeps g (emit ev)"
  by (simp add: keeps_def emit_def)

subsection \<open>Results about the aggregator\<close>

lemma bool_sum_map: "bool_sum (map P xs) = length (filter P xs)"
  by (induction xs) (simp_all add: bool_sum_def)

lemma drop_padding_kept: "drop_padding rows = kept_rows rows"
  by (simp add: drop_padding_def kept_rows_def list_ex_iff)

lemma bool_and_map: "bool_and (map f xs) (map g xs) = map (\<lambda>x. f x \<and> g x) xs"
  by (induction xs) (simp_all add: bool_and_def)

lemma bool_xor_map: "bool_xor (map f xs) (map g xs) = map (\<lambda>x. f x \<noteq> g x) xs"
  by (induction xs) (simp_all add: bool_xor_def)

lemma have_msa_take: "have_msa (map (take l1) rows) = map (present_1 l1) rows"
  by (simp add: have_msa_def present_1_def list_all_iff)

lemma have_msa_drop: "have_msa (map (drop l1) rows) = map (present_2 l1) rows"
  by (simp add: have_msa_def present_2_def list_all_iff)

lemma filter_length_cong:
  "(\<And>x. P x = Q x) \<Longrightarrow> length (filter P xs) = length (filter Q xs)"
  by (induction xs) simp_all

lemma msa_stats_row_spec:
  assumes "select_batch pfx all_msa i = Inr batch"
    and "t2_cols batch - l1 = l2"
  shows "msa_stats_row all_msa l1 l2 False pfx i = Inr (spec_counts l1 (t2_rows batch))"
proof -
  let ?rows = "kept_rows (t2_rows batch)"
  let ?h1 = "map (present_1 l1) ?rows" and ?h2 = "map (present_2 l1) ?rows"
  have pair: "bool_and ?h1 ?h2 = map (\<lambda>r. present_1 l1 r \<and> present_2 l1 r) ?rows"
    by (rule bool_and_map)
  have u1: "bool_sum (bool_xor ?h1 (map (\<lambda>r. present_1 l1 r \<and> present_2 l1 r) ?rows))
      = length (filter (\<lambda>r. present_1 l1 r \<and> \<not> present_2 l1 r) ?rows)"
    unfolding bool_xor_map bool_sum_map by (rule filter_length_cong) blast
  have u2: "bool_sum (bool_xor ?h2 (map (\<lambda>r. present_1 l1 r \<and> present_2 l1 r) ?rows))
      = length (filter (\<lambda>r. present_2 l1 r \<and> \<not> present_1 l1 r) ?rows)"
    unfolding bool_xor_map bool_sum_map by (rule filter_length_cong) blast
  show ?thesis
    using assms
    by (simp add: msa_stats_row_def Let_def drop_padding_kept have_msa_take have_msa_drop
        pair u1 u2 bool_sum_map spec_counts_def)
qed

lemma msa_stats_loop_spec:
  assumes "\<And>j. i \<le> j \<Longrightarrow> j < i + k \<Longrightarrow>
             \<exists>batch. select_batch pfx all_msa j = Inr batch \<and> t2_cols batch - l1 = l2"
  shows "msa_stats_loop all_msa l1 l2 False pfx i k =
           Inr (map (\<lambda>j. spec_counts l1 (t2_rows (projr (select_batch pfx all_msa j)))) [i ..< i + k])"
  using assms
proof (induction k arbitrary: i)
  case 0
  then show ?case by simp
next
  case (Suc k)
  from Suc.prems [of i] obtain batch where
    b: "select_batch pfx all_msa i = Inr batch" "t2_cols batch - l1 = l2"
    by auto
  have row: "msa_stats_row all_msa l1 l2 False pfx i = Inr (spec_counts l1 (t2_rows batch))"
    using b by (rule msa_stats_row_spec)
  have rest: "msa_stats_loop all_msa l1 l2 False pfx (Suc i) k =
      Inr (map (\<lambda>j. spec_counts l1 (t2_rows (projr (select_batch pfx all_msa j)))) [Suc i ..< Suc i + k])"
    by (rule Suc.IH) (use Suc.prems in auto)
  show ?case
    by (simp add: row rest b upt_conv_Cons del: upt_Suc)
qed

text \<open>
  C6. For every recycling iteration whose slice passes the width assertion, the row that
  \<open>get_msa_stats\<close> writes (with \<open>if_homo\<close> false, as the driver always calls it) holds
  the number of kept rows present in both chains, the number present only in chain 1 and
  the number present only in chain 2; rows that are entirely 0 are not counted.
\<close>

theorem get_msa_stats_counts:
  assumes "\<forall>j < num_recycle.
             \<exists>batch. select_batch pfx all_msa j = Inr batch \<and> t2_cols batch - l1 = l2"
  shows "get_msa_stats all_msa l1 l2 num_recycle False pfx =
           Inr (map (\<lambda>j. spec_counts l1 (t2_rows (projr (select_batch pfx all_msa j))))
                  [0 ..< num_recycle])"
  unfolding get_msa_stats_def
  using msa_stats_loop_spec [of 0 num_recycle pfx all_msa l1 l2] assms by simp

theorem get_msa_stats_counts_witness:
  "select_batch [] planted_msa 0 = Inr \<lparr>t2_cols = 4, t2_rows = planted_rows\<rparr> \<and>
   get_msa_stats planted_msa 2 2 1 False [] = Inr [(3, 2, 0)]"
proof -
  have b: "select_batch [] planted_msa 0 = Inr \<lparr>t2_cols = 4, t2_rows = planted_rows\<rparr>"
    by (simp add: select_batch_def slice_recycle_def planted_msa_def planted_rows_def)
  have h: "\<forall>j < (1::nat). \<exists>batch. select_batch [] planted_msa j = Inr batch \<and> t2_cols batch - 2 = 2"
    using b by simp
  have c: "spec_counts 2 planted_rows = (3, 2, 0)"
    by (simp add: spec_counts_def kept_rows_def present_1_def present_2_def planted_rows_def)
  show ?thesis
    using get_msa_stats_counts [OF h] b c by simp
qed


subsection \<open>Results about target discovery\<close>

lemma sorted_targets_result:
  assumes "sorted_targets env args s = (Inr targets, s')"
  shows "\<exists>found. targets = sort_key seq_sort_fn found"
  using assms unfolding sorted_targets_def
  by (auto elim!: bindE_cases simp: ret_def)

text \<open>
  C7. When discovery returns, the worklist is ascending in the total sequence length of its
  targets: the key list is sorted, so each target's total length is at most that of the
  target processed after it.
\<close>

theorem sorted_targets_ascending:
  "fst (sorted_targets env args s) = Inr targets \<longrightarrow>
   sorted (map seq_sort_fn targets) \<and>
   (\<forall>i. Suc i < length targets \<longrightarrow> seq_sort_fn (targets ! i) \<le> seq_sort_fn (targets ! Suc i))"
proof
  assume "fst (sorted_targets env args s) = Inr targets"
  then have "sorted_targets env args s = (Inr targets, snd (sorted_targets env args s))"
    by (simp add: prod_eq_iff)
  from sorted_targets_result [OF this] obtain found where "targets = sort_key seq_sort_fn found" ..
  then have s: "sorted (map seq_sort_fn targets)"
    by (simp add: sorted_sort_key)
  have "seq_sort_fn (targets ! i) \<le> seq_sort_fn (targets ! Suc i)" if "Suc i < length targets" for i
    using sorted_nth_mono [OF s, of i "Suc i"] that by simp
  with s show "sorted (map seq_sort_fn targets) \<and>
   (\<forall>i. Suc i < length targets \<longrightarrow> seq_sort_fn (targets ! i) \<le> seq_sort_fn (targets ! Suc i))"
    by blast
qed

lemma good_env_fields:
  "getpid (good_env names parsed models) = 4242"
  "listdir (good_env names parsed models) = (\<lambda>_ _. Inr names)"
  "read_fasta (good_env names parsed models) = (\<lambda>_ p. Inr (parsed p))"
  "load_json (good_env names parsed models) = (\<lambda>_ p. Inl (OSError p))"
  "model_config (good_env names parsed models) = (\<lambda>_ _. Inr base_config)"
  "load_models (good_env names parsed models) = map Inr models"
  "embedding_run (good_env names parsed models) = (\<lambda>_ _ _. None)"
  "alignment_run (good_env names parsed models) = (\<lambda>_ _ _ _. None)"
  "process_fasta (good_env names parsed models) = (\<lambda>_ _ text _. Inr (plain_features (residues_of False text)))"
  "process_multiseq_fasta (good_env names parsed models) = (\<lambda>_ text _. Inr (plain_features (residues_of False text)))"
  "pad_feature_dict_seq (good_env names parsed models) = (\<lambda>_ fd r. Inr (plain_features r))"
  "process_features (good_env names parsed models) = (\<lambda>_ fd _. Inr (plain_processed fd))"
  "trace_model_inplace (good_env names parsed models) = (\<lambda>_ _ _. None)"
  "run_model (good_env names parsed models) = (\<lambda>_ _ _ _. Inr \<lparr>out_num_recycles = Some 1, out_payload = 0\<rparr>)"
  "prep_output (good_env names parsed models) = (\<lambda>_ _ _ _. Inr 0)"
  "protein_to_text (good_env names parsed models) = (\<lambda>_ _ _. Inr ''MODEL'')"
  "relax_protein (good_env names parsed models) = (\<lambda>_ _ _ _. None)"
  by (simp_all add: good_env_def)

lemma base_args_fields:
  "fasta_dir base_args = ''in''" "output_dir base_args = ''out''"
  "config_preset base_args = ''model_1''" "use_precomputed_alignments base_args = None"
  "use_single_seq_mode base_args = False" "trace_model base_args = False"
  "skip_relaxation base_args = True" "save_outputs base_args = False"
  "cif_output base_args = False" "experiment_config_json base_args = []"
  by (simp_all add: base_args_def)

lemma multimer_args_fields:
  "fasta_dir multimer_args = ''in''" "output_dir multimer_args = ''out''"
  "config_preset multimer_args = ''model_1_multimer_v3''" "use_precomputed_alignments multimer_args = None"
  "use_single_seq_mode multimer_args = False" "trace_model multimer_args = False"
  "skip_relaxation multimer_args = True" "save_outputs multimer_args = False"
  "cif_output multimer_args = False" "experiment_config_json multimer_args = []"
  by (simp_all add: multimer_args_def base_args_def)

lemma traced_args_fields:
  "fasta_dir traced_args = ''in''" "output_dir traced_args = ''out''"
  "config_preset traced_args = ''model_1_multimer_v3''" "use_precomputed_alignments traced_args = None"
  "use_single_seq_mode traced_args = False" "trace_model traced_args = True"
  "skip_relaxation traced_args = True" "save_outputs traced_args = False"
  "cif_output traced_args = False" "experiment_config_json traced_args = []"
  by (simp_all add: traced_args_def multimer_args_def base_args_def)

lemma multimer_preset: "is_multimer_preset ''model_1_multimer_v3''"
  by (simp add: is_multimer_preset_def sublist_code prefix_code)

lemma monomer_preset: "\<not> is_multimer_preset ''model_1''"
  by (simp add: is_multimer_preset_def sublist_code prefix_code)

lemma dimer_sorted:
  assumes "fasta_dir args = ''in''" "config_preset args = ''model_1_multimer_v3''"
  shows "sorted_targets (dimer_env ms) args s = (Inr [target_a, target_b], s\<lparr>clock := clock s + 3\<rparr>)"
proof -
  have k: "seq_sort_fn target_a = 50" "seq_sort_fn target_b = 100"
    by (simp_all add: seq_sort_fn_def target_a_def target_b_def)
  have "sorted_targets (dimer_env ms) args s
      = (Inr (sort_key seq_sort_fn [target_b, target_a]), s\<lparr>clock := clock s + 3\<rparr>)"
    using multimer_preset
    by (simp add: sorted_targets_def list_files_with_extensions_def assms step_defs dimer_env_def
        good_env_fields suffix_to_prefix prefix_code dimer_parsed_def os_path_join_def
        target_a_def target_b_def)
  then show ?thesis by (simp add: k)
qed

theorem sorted_targets_ascending_witness:
  "fst (sorted_targets (dimer_env []) multimer_args empty_state) = Inr [target_a, target_b] \<and>
   map seq_sort_fn [target_a, target_b] = [50, 100] \<and>
   sorted (map seq_sort_fn [target_a, target_b])"
proof -
  have f: "fst (sorted_targets (dimer_env []) multimer_args empty_state) = Inr [target_a, target_b]"
    by (simp add: dimer_sorted multimer_args_fields)
  have k: "map seq_sort_fn [target_a, target_b] = [50, 100]"
    by (simp add: seq_sort_fn_def target_a_def target_b_def)
  from sorted_targets_ascending [of "dimer_env []" multimer_args empty_state "[target_a, target_b]"] f k
  show ?thesis by simp
qed

subsection \<open>Results about the scratch file\<close>

lemmas run_defs = failing_tools_env_def monomer_env_def good_env_def base_args_def empty_state_def

lemma align_one_files:
  "align_one env args ad tag seq s = (r, s') \<Longrightarrow>
     (case r of Inr _ \<Rightarrow> files s' (tmp_fasta_path env args) = None
              | Inl e \<Rightarrow> files s' (tmp_fasta_path env args) \<noteq> None)"
  by (auto simp: align_one_def step_defs Let_def
      split: sum.splits prod.splits option.splits if_splits)

lemma align_loop_files:
  "align_loop env args ad ps s = (r, s') \<Longrightarrow>
     (case r of Inr _ \<Rightarrow> files s' (tmp_fasta_path env args)
                         = (if ps = [] then files s (tmp_fasta_path env args) else None)
              | Inl e \<Rightarrow> files s' (tmp_fasta_path env args) \<noteq> None)"
proof (induction ps arbitrary: s)
  case Nil
  then show ?case by (auto simp: ret_def)
next
  case (Cons p ps)
  obtain tag seq where p: "p = (tag, seq)" by (cases p)
  obtain r1 s1 where one: "align_one env args ad tag seq s = (r1, s1)" by fastforce
  show ?case
  proof (cases r1)
    case (Inl e)
    with Cons.prems one p show ?thesis
      using align_one_files [OF one] by (auto simp: bindE_def)
  next
    case (Inr u)
    with Cons.prems one p have rest: "align_loop env args ad ps s1 = (r, s')"
      by (simp add: bindE_def)
    from align_one_files [OF one] Inr have "files s1 (tmp_fasta_path env args) = None" by simp
    with Cons.IH [OF rest] show ?thesis by (auto split: sum.splits)
  qed
qed

lemma generate_files:
  "generate_feature_dict tags seqs ad env args td s = (r, s') \<Longrightarrow>
     (case r of Inr _ \<Rightarrow> files s' (tmp_fasta_path env args) = None
              | Inl e \<Rightarrow> (is_multimer_preset (config_preset args) \<or> length seqs \<noteq> 1 \<or> tags \<noteq> []
                           \<longrightarrow> files s' (tmp_fasta_path env args) \<noteq> None))"
  by (auto simp: generate_feature_dict_def step_defs Let_def
      split: sum.splits prod.splits option.splits if_splits list.splits)

lemma tmp_path_4242: "tmp_fasta_path failing_tools_env base_args = ''out/tmp_4242.fasta''"
  by (simp add: tmp_fasta_path_def os_path_join_def str_nat.simps run_defs)

lemma tmp_path_monomer: "tmp_fasta_path monomer_env base_args = ''out/tmp_4242.fasta''"
  by (simp add: tmp_fasta_path_def os_path_join_def str_nat.simps run_defs)

text \<open>
  C4, as the script has it. When \<open>precompute_alignments\<close> (having processed at least one
  chain) or \<open>generate_feature_dict\<close> returns, the scratch file is gone. When either
  raises after the file was written, the file is still there: the removal is the last
  statement and nothing guards it.
\<close>

theorem scratch_file_removed_on_return_only:
  "(fst (precompute_alignments tags seqs ad env args s) = Inr u \<longrightarrow> zip tags seqs \<noteq> [] \<longrightarrow>
      files (snd (precompute_alignments tags seqs ad env args s)) (tmp_fasta_path env args) = None) \<and>
   (fst (precompute_alignments tags seqs ad env args s) = Inl e \<longrightarrow>
      files (snd (precompute_alignments tags seqs ad env args s)) (tmp_fasta_path env args) \<noteq> None) \<and>
   (fst (generate_feature_dict tags seqs ad env args td s) = Inr fd \<longrightarrow>
      files (snd (generate_feature_dict tags seqs ad env args td s)) (tmp_fasta_path env args) = None) \<and>
   (fst (generate_feature_dict tags seqs ad env args td s) = Inl e \<longrightarrow>
      is_multimer_preset (config_preset args) \<or> length seqs \<noteq> 1 \<or> tags \<noteq> [] \<longrightarrow>
      files (snd (generate_feature_dict tags seqs ad env args td s)) (tmp_fasta_path env args) \<noteq> None)"
proof -
  obtain r1 s1 where a: "align_loop env args ad (zip tags seqs) s = (r1, s1)" by fastforce
  obtain r2 s2 where g: "generate_feature_dict tags seqs ad env args td s = (r2, s2)" by fastforce
  show ?thesis
    using align_loop_files [OF a] generate_files [OF g] a g
    by (auto simp: precompute_alignments_def)
qed

theorem scratch_file_removed_on_return_only_witness:
  "fst (precompute_alignments [''T1''] [''ACD''] ''out/alignments'' monomer_env base_args empty_state)
     = Inr () \<and>
   files (snd (precompute_alignments [''T1''] [''ACD''] ''out/alignments'' monomer_env base_args
                 empty_state)) ''out/tmp_4242.fasta'' = None \<and>
   fst (generate_feature_dict [''T1''] [''ACD''] ''out/alignments'' failing_tools_env base_args
          ''out/model_1/t1'' empty_state) = Inl (CollaboratorError ''process_fasta'') \<and>
   files (snd (generate_feature_dict [''T1''] [''ACD''] ''out/alignments'' failing_tools_env base_args
                 ''out/model_1/t1'' empty_state)) ''out/tmp_4242.fasta'' \<noteq> None"
proof -
  have ok: "fst (precompute_alignments [''T1''] [''ACD''] ''out/alignments'' monomer_env base_args
                   empty_state) = Inr ()"
    by (simp add: precompute_alignments_def align_one_def step_defs tmp_path_monomer)
       (simp add: run_defs step_defs)
  have bad: "fst (generate_feature_dict [''T1''] [''ACD''] ''out/alignments'' failing_tools_env
                    base_args ''out/model_1/t1'' empty_state) = Inl (CollaboratorError ''process_fasta'')"
    by (simp add: generate_feature_dict_def step_defs tmp_path_4242)
       (simp add: run_defs is_multimer_preset_def sublist_code step_defs)
  show ?thesis
    using ok bad
      scratch_file_removed_on_return_only [of "[''T1'']" "[''ACD'']" "''out/alignments''" monomer_env
        base_args empty_state "()" "CollaboratorError ''process_fasta''" "''out/model_1/t1''"]
      scratch_file_removed_on_return_only [of "[''T1'']" "[''ACD'']" "''out/alignments''"
        failing_tools_env base_args empty_state "()" "CollaboratorError ''process_fasta''"
        "''out/model_1/t1''"]
    by (simp add: tmp_path_monomer tmp_path_4242)
qed

text \<open>
  The claim C4 as stated fails: with a runner (or a feature processor) that raises, the call
  ends in that exception and the scratch file is still on disk.
\<close>

theorem scratch_file_left_on_failure:
  "fst (precompute_alignments [''T1''] [''ACD''] ''out/alignments'' failing_tools_env base_args
          empty_state) = Inl (CollaboratorError ''jackhmmer'') \<and>
   files (snd (precompute_alignments [''T1''] [''ACD''] ''out/alignments'' failing_tools_env base_args
                 empty_state)) ''out/tmp_4242.fasta'' = Some (Text (fasta_entry ''T1'' ''ACD'')) \<and>
   fst (generate_feature_dict [''T1''] [''ACD''] ''out/alignments'' failing_tools_env base_args
          ''out/model_1/t1'' empty_state) = Inl (CollaboratorError ''process_fasta'') \<and>
   files (snd (generate_feature_dict [''T1''] [''ACD''] ''out/alignments'' failing_tools_env base_args
                 ''out/model_1/t1'' empty_state)) ''out/tmp_4242.fasta''
     = Some (Text (fasta_entry ''T1'' ''ACD''))"
proof -
  have a: "precompute_alignments [''T1''] [''ACD''] ''out/alignments'' failing_tools_env base_args
             empty_state
           = (Inl (CollaboratorError ''jackhmmer''),
              empty_state\<lparr>files := [''out/tmp_4242.fasta'' \<mapsto> Text (fasta_entry ''T1'' ''ACD'')],
                          dirs := {''out/alignments/T1''}, clock := 1\<rparr>)"
    by (simp add: precompute_alignments_def align_one_def step_defs tmp_path_4242)
       (simp add: run_defs os_path_join_def step_defs)
  have g: "generate_feature_dict [''T1''] [''ACD''] ''out/alignments'' failing_tools_env base_args
             ''out/model_1/t1'' empty_state
           = (Inl (CollaboratorError ''process_fasta''),
              empty_state\<lparr>files := [''out/tmp_4242.fasta'' \<mapsto> Text (fasta_entry ''T1'' ''ACD'')],
                          clock := 1\<rparr>)"
    by (simp add: generate_feature_dict_def step_defs tmp_path_4242)
       (simp add: run_defs is_multimer_preset_def sublist_code step_defs)
  show ?thesis by (simp add: a g)
qed


subsection \<open>Results about startup\<close>

lemma update_keeps_other:
  "update_from_flattened_dict c d = Inr c' \<Longrightarrow> k \<notin> fst ` set d \<Longrightarrow> c' k = c k"
proof (induction d arbitrary: c)
  case Nil
  then show ?case by simp
next
  case (Cons kv d)
  from Cons.prems(1) obtain c1 where s: "set_leaf c kv = Inr c1"
    and u: "update_from_flattened_dict c1 d = Inr c'"
    by (auto split: sum.splits)
  from s Cons.prems(2) have "c1 k = c k"
    by (auto simp: set_leaf_def split: option.splits if_splits)
  with Cons.IH [OF u] Cons.prems(2) show ?case by simp
qed

lemma update_sets:
  "update_from_flattened_dict c d = Inr c' \<Longrightarrow> distinct (map fst d) \<Longrightarrow> (k, v) \<in> set d \<Longrightarrow>
     c' k = Some v"
proof (induction d arbitrary: c)
  case Nil
  then show ?case by simp
next
  case (Cons kv d)
  from Cons.prems(1) obtain c1 where s: "set_leaf c kv = Inr c1"
    and u: "update_from_flattened_dict c1 d = Inr c'"
    by (auto split: sum.splits)
  show ?case
  proof (cases "(k, v) = kv")
    case True
    with s have "c1 k = Some v"
      by (auto simp: set_leaf_def split: option.splits if_splits)
    moreover from True Cons.prems(2) have "k \<notin> fst ` set d" by force
    ultimately show ?thesis using update_keeps_other [OF u] by simp
  next
    case False
    with Cons.prems(3) have "(k, v) \<in> set d" by simp
    with Cons.IH [OF u] Cons.prems(2) show ?thesis by simp
  qed
qed

lemma compatible_refl: "compatible v v"
  by (cases v) simp_all

lemma update_fixed:
  "(\<And>k v. (k, v) \<in> set d \<Longrightarrow> c k = Some v) \<Longrightarrow> update_from_flattened_dict c d = Inr c"
proof (induction d)
  case Nil
  show ?case by simp
next
  case (Cons kv d)
  have "c (fst kv) = Some (snd kv)" using Cons.prems [of "fst kv" "snd kv"] by simp
  then have "set_leaf c kv = Inr c"
    by (simp add: set_leaf_def compatible_refl fun_upd_idem)
  moreover have "update_from_flattened_dict c d = Inr c"
    using Cons.IH Cons.prems by simp
  ultimately show ?case by simp
qed

lemma update_twice:
  assumes "update_from_flattened_dict c d = Inr c'" and "distinct (map fst d)"
  shows "update_from_flattened_dict c' d = Inr c'"
  using update_sets [OF assms] by (rule update_fixed)

lemma overlay_block_run:
  assumes "experiment_config_json args \<noteq> []"
    and "load_json env (clock s) (experiment_config_json args) = Inr d"
    and "update_from_flattened_dict c d = Inr c'"
  shows "overlay_block env args c s =
           (Inr c', s\<lparr>clock := Suc (clock s),
                      events := events s @ [Overlay (experiment_config_json args)]\<rparr>)"
  using assms by (simp add: overlay_block_def step_defs)

lemma frame_clock [simp]: "frame (s\<lparr>clock := k\<rparr>) = frame s"
  by (simp add: frame_def)

lemma frame_dirs [simp]: "frame (s\<lparr>dirs := d\<rparr>) = frame s"
  by (simp add: frame_def)

lemma frame_overlay [simp]: "frame (s\<lparr>events := events s @ [Overlay p]\<rparr>) = frame s"
  by (simp add: frame_def)

lemma keeps_frame_overlay_block: "keeps frame (overlay_block env args c)"
  unfolding overlay_block_def
  by (intro keeps_bindE keeps_pure keeps_if keeps_call keeps_emit) simp_all

lemma keeps_frame_startup_config: "keeps frame (startup_config env args)"
  unfolding startup_config_def
  by (intro keeps_bindE keeps_call keeps_frame_overlay_block) simp

lemma keeps_gather_targets:
  assumes "\<And>s k. g (s\<lparr>clock := k\<rparr>) = g s"
  shows "keeps g (gather_targets env args im fs)"
proof (induction fs)
  case Nil
  show ?case by (simp add: keeps_pure)
next
  case (Cons f fs)
  show ?case
    by (simp del: bindE_def, intro keeps_bindE keeps_call keeps_if keeps_pure Cons.IH assms)
qed

lemma keeps_sorted_targets:
  assumes "\<And>s k. g (s\<lparr>clock := k\<rparr>) = g s"
  shows "keeps g (sorted_targets env args)"
  unfolding sorted_targets_def list_files_with_extensions_def
  by (intro keeps_bindE keeps_call keeps_pure keeps_gather_targets assms)

lemma keeps_frame_startup: "keeps frame (startup env args)"
  unfolding startup_def
  by (intro keeps_bindE keeps_makedirs keeps_frame_startup_config keeps_pure keeps_sorted_targets)
     simp_all

lemma frame_begins: "frame s' = frame s \<Longrightarrow> filter is_begin (events s') = filter is_begin (events s)"
proof -
  assume "frame s' = frame s"
  then have e: "filter (\<lambda>e. \<not> is_overlay e) (events s') = filter (\<lambda>e. \<not> is_overlay e) (events s)"
    by (simp add: frame_def)
  have b: "(\<not> is_overlay e \<and> is_begin e) = is_begin e" for e by (cases e) simp_all
  have "filter is_begin (filter (\<lambda>e. \<not> is_overlay e) es) = filter is_begin es" for es
    by (simp add: b)
  with e show ?thesis by metis
qed




subsection \<open>What a step leaves of the cache and its events\<close>

lemma cache_view_prims:
  "keeps cache_view (call f)" "keeps cache_view (call_unit h)"
  "keeps cache_view (write_file p c)" "keeps cache_view (remove_file p)"
  "keeps cache_view (makedirs p)" "keeps cache_view (assign_rounded_seqlen r)"
  "keeps cache_view (assign_cur_tracing_interval r)"
  "\<not> is_marker ev \<Longrightarrow> keeps cache_view (emit ev)"
  by (auto simp: keeps_def cache_view_def markers_def call_def call_unit_def write_file_def
      remove_file_def makedirs_def assign_rounded_seqlen_def assign_cur_tracing_interval_def emit_def)

lemmas keeps_intros = keeps_bindE keeps_pure keeps_if keeps_case_prod keeps_case_prod3 cache_view_prims

lemma keeps_msa_stats_stage: "keeps cache_view (msa_stats_stage fd processed seqs)"
  unfolding msa_stats_stage_def by (intro keeps_intros)

lemma keeps_tracing_stage: "keeps cache_view (tracing_stage env args mdl tag processed)"
proof -
  have "cache_view (snd (tracing_stage env args mdl tag processed s)) = cache_view s" for s
  proof (cases "trace_model args")
    case False
    then show ?thesis by (simp add: tracing_stage_def ret_def)
  next
    case True
    show ?thesis
    proof (cases "rounded_seqlen s")
      case None
      with True show ?thesis by (simp add: tracing_stage_def raise_def)
    next
      case (Some r)
      have k: "keeps cache_view (bindE (emit (Tracing mdl tag r)) (\<lambda>_.
               bindE (call_unit (\<lambda>k. trace_model_inplace env k mdl processed)) (\<lambda>_.
               assign_cur_tracing_interval r)))"
        by (intro keeps_intros) simp
      with True Some show ?thesis
        by (simp add: tracing_stage_def ret_def keeps_def)
    qed
  qed
  then show ?thesis by (simp add: keeps_def)
qed

lemma keeps_write_unrelaxed: "keeps cache_view (write_unrelaxed env args d p)"
  unfolding write_unrelaxed_def by (intro keeps_intros)

lemma keeps_save_outputs_stage: "keeps cache_view (save_outputs_stage d fd out m x st)"
  unfolding save_outputs_stage_def by (intro keeps_intros)

lemma keeps_target_tail:
  "keeps cache_view (target_tail env args im mdl od tag seqs fn fod fd)"
  unfolding target_tail_def
  by (intro keeps_intros keeps_msa_stats_stage keeps_tracing_stage keeps_write_unrelaxed
      keeps_save_outputs_stage) simp

lemma keeps_align_one: "keeps cache_view (align_one env args ad tag seq)"
  unfolding align_one_def Let_def by (intro keeps_intros)

lemma keeps_align_loop: "keeps cache_view (align_loop env args ad ps)"
proof (induction ps)
  case Nil
  show ?case by (simp add: keeps_pure)
next
  case (Cons p ps)
  obtain tag seq where "p = (tag, seq)" by (cases p)
  with Cons show ?case by (simp add: keeps_bindE keeps_align_one)
qed

lemma keeps_generate: "keeps cache_view (generate_feature_dict tags seqs ad env args td)"
  unfolding generate_feature_dict_def
  by (intro keeps_intros) (auto split: list.splits intro!: keeps_intros)

lemma cached_features_hit:
  "feature_dicts s tag = Some fd \<Longrightarrow>
     cached_features env args ad tag tags seqs fod s = (Inr fd, s)"
  by (simp add: cached_features_def ret_def)

lemma keeps_padding:
  "keeps cache_view
     (if trace_model args
      then (case fd_aatype_rows fd of
              None \<Rightarrow> raise (KeyError ''aatype'')
            | Some n \<Rightarrow>
                bindE (assign_rounded_seqlen (round_up_seqlen n)) (\<lambda>_.
                call (\<lambda>k. pad_feature_dict_seq env k fd (round_up_seqlen n))))
      else ret fd)"
  by (auto split: option.splits intro!: keeps_intros)

lemma cached_features_miss:
  assumes miss: "feature_dicts s tag = None"
    and run: "cached_features env args ad tag tags seqs fod s = (r, s')"
  shows "case r of
           Inl e \<Rightarrow> cache_view s' = (feature_dicts s, markers s @ [Generate tag])
         | Inr fd \<Rightarrow> cache_view s' = ((feature_dicts s)(tag \<mapsto> fd), markers s @ [Generate tag, Store tag])"
proof -
  let ?s1 = "s\<lparr>events := events s @ [Generate tag]\<rparr>"
  let ?pad = "\<lambda>fd. if trace_model args
      then (case fd_aatype_rows fd of
              None \<Rightarrow> raise (KeyError ''aatype'')
            | Some n \<Rightarrow>
                bindE (assign_rounded_seqlen (round_up_seqlen n)) (\<lambda>_.
                call (\<lambda>k. pad_feature_dict_seq env k fd (round_up_seqlen n))))
      else ret fd"
  have v1: "cache_view ?s1 = (feature_dicts s, markers s @ [Generate tag])"
    by (simp add: cache_view_def markers_def)
  from miss run have g: "bindE (generate_feature_dict tags seqs ad env args fod) (\<lambda>fd.
          bindE (?pad fd) (\<lambda>feature_dict.
          bindE (store_features tag feature_dict) (\<lambda>_. ret feature_dict))) ?s1 = (r, s')"
    by (simp add: cached_features_def bindE_def emit_def)
  from g show ?thesis
  proof (cases rule: bindE_cases)
    case (raised e)
    then show ?thesis using keepsD [OF keeps_generate raised(1)] v1 by simp
  next
    case (returned fd s2)
    have v2: "cache_view s2 = cache_view ?s1"
      using keepsD [OF keeps_generate returned(1)] .
    from returned(2) show ?thesis
    proof (cases rule: bindE_cases)
      case (raised e)
      then show ?thesis using keepsD [OF keeps_padding raised(1)] v1 v2 by simp
    next
      case (returned fd' s3)
      have v3: "cache_view s3 = cache_view ?s1"
        using keepsD [OF keeps_padding returned(1)] v2 by simp
      from returned(2) have "r = Inr fd'"
        and "s' = s3\<lparr>feature_dicts := (feature_dicts s3)(tag \<mapsto> fd'), events := events s3 @ [Store tag]\<rparr>"
        by (auto simp: bindE_def store_features_def ret_def)
      then show ?thesis using v3 v1 by (simp add: cache_view_def markers_def)
    qed
  qed
qed

lemma target_head_view:
  assumes "target_head env args ad mdl tags seqs fn fod s = (r, s1)"
  shows "cache_view s1 = (feature_dicts s, markers s @ [Begin mdl fn])"
proof -
  let ?s0 = "s\<lparr>dirs := insert fod (dirs s), events := events s @ [Begin mdl fn]\<rparr>"
  have v: "cache_view ?s0 = (feature_dicts s, markers s @ [Begin mdl fn])"
    by (simp add: cache_view_def markers_def)
  have ka: "keeps cache_view (precompute_alignments tags seqs ad env args)"
    by (simp add: precompute_alignments_def keeps_align_loop)
  from assms have "precompute_alignments tags seqs ad env args ?s0 = (r, s1)"
    by (simp add: target_head_def bindE_def makedirs_def emit_def)
  from keepsD [OF ka this] v show ?thesis by simp
qed

lemma target_body_unfold:
  "target_body env args im ad (mdl, od) ((tag, tags), seqs, fn) =
     bindE (target_head env args ad mdl tags seqs fn (final_output_dir_of args od fn)) (\<lambda>_.
     bindE (cached_features env args ad tag tags seqs (final_output_dir_of args od fn)) (\<lambda>fd.
     target_tail env args im mdl od tag seqs fn (final_output_dir_of args od fn) fd))"
  by (simp add: target_body_def Let_def)

lemma target_body_view:
  assumes run: "target_body env args im ad (mdl, od) ((tag, tags), seqs, fn) s = (r, s')"
  shows "(feature_dicts s tag \<noteq> None \<longrightarrow>
            cache_view s' = (feature_dicts s, markers s @ [Begin mdl fn])) \<and>
         (feature_dicts s tag = None \<longrightarrow>
            cache_view s' = (feature_dicts s, markers s @ [Begin mdl fn]) \<or>
            cache_view s' = (feature_dicts s, markers s @ [Begin mdl fn, Generate tag]) \<or>
            (\<exists>fd. cache_view s' =
               ((feature_dicts s)(tag \<mapsto> fd), markers s @ [Begin mdl fn, Generate tag, Store tag])))"
proof -
  let ?fod = "final_output_dir_of args od fn"
  from run [unfolded target_body_unfold] show ?thesis
  proof (cases rule: bindE_cases)
    case (raised e)
    then show ?thesis using target_head_view [OF raised(1)] by auto
  next
    case (returned u s2)
    from target_head_view [OF returned(1)]
    have f2: "feature_dicts s2 = feature_dicts s" and m2: "markers s2 = markers s @ [Begin mdl fn]"
      by (simp_all add: cache_view_def)
    show ?thesis
    proof (cases "feature_dicts s tag")
      case None
      from returned(2) show ?thesis
      proof (cases rule: bindE_cases)
        case (raised e)
        from cached_features_miss [OF _ raised(1)] None f2 m2 raised(2)
        show ?thesis by simp
      next
        case (returned fd s3)
        from cached_features_miss [OF _ returned(1)] None f2 m2
        have "cache_view s3 = ((feature_dicts s)(tag \<mapsto> fd), markers s @ [Begin mdl fn, Generate tag, Store tag])"
          by simp
        moreover have "cache_view s' = cache_view s3"
          using keepsD [OF keeps_target_tail returned(2)] .
        ultimately show ?thesis using None by auto
      qed
    next
      case (Some fd)
      with f2 have hit: "cached_features env args ad tag tags seqs ?fod s2 = (Inr fd, s2)"
        by (simp add: cached_features_hit)
      from returned(2) hit have "target_tail env args im mdl od tag seqs fn ?fod fd s2 = (r, s')"
        by (simp add: bindE_def)
      from keepsD [OF keeps_target_tail this] f2 m2 Some show ?thesis
        by (simp add: cache_view_def)
    qed
  qed
qed

lemma run_target_view:
  "(feature_dicts s tag \<noteq> None \<longrightarrow>
      cache_view (run_target env args im ad (mdl, od) ((tag, tags), seqs, fn) s)
        = (feature_dicts s, markers s @ [Begin mdl fn])) \<and>
   (feature_dicts s tag = None \<longrightarrow>
      cache_view (run_target env args im ad (mdl, od) ((tag, tags), seqs, fn) s)
        = (feature_dicts s, markers s @ [Begin mdl fn]) \<or>
      cache_view (run_target env args im ad (mdl, od) ((tag, tags), seqs, fn) s)
        = (feature_dicts s, markers s @ [Begin mdl fn, Generate tag]) \<or>
      (\<exists>fd. cache_view (run_target env args im ad (mdl, od) ((tag, tags), seqs, fn) s) =
         ((feature_dicts s)(tag \<mapsto> fd), markers s @ [Begin mdl fn, Generate tag, Store tag])))"
proof -
  obtain r s' where b: "target_body env args im ad (mdl, od) ((tag, tags), seqs, fn) s = (r, s')"
    by fastforce
  have "cache_view (run_target env args im ad (mdl, od) ((tag, tags), seqs, fn) s) = cache_view s'"
    using b by (cases r) (simp_all add: run_target_def cache_view_def markers_def)
  with target_body_view [OF b] show ?thesis by simp
qed


subsection \<open>The loops\<close>

lemma run_target_view_t:
  "(feature_dicts s (target_tag t) \<noteq> None \<longrightarrow>
      cache_view (run_target env args im ad m t s)
        = (feature_dicts s, markers s @ [Begin (fst m) (target_file t)])) \<and>
   (feature_dicts s (target_tag t) = None \<longrightarrow>
      cache_view (run_target env args im ad m t s)
        = (feature_dicts s, markers s @ [Begin (fst m) (target_file t)]) \<or>
      cache_view (run_target env args im ad m t s)
        = (feature_dicts s, markers s @ [Begin (fst m) (target_file t), Generate (target_tag t)]) \<or>
      (\<exists>fd. cache_view (run_target env args im ad m t s) =
         ((feature_dicts s)(target_tag t \<mapsto> fd),
          markers s @ [Begin (fst m) (target_file t), Generate (target_tag t), Store (target_tag t)])))"
proof -
  obtain mdl od where m: "m = (mdl, od)" by (cases m)
  obtain tag tags seqs fn where t: "t = ((tag, tags), seqs, fn)" by (cases t) auto
  show ?thesis
    using run_target_view [of s tag env args im ad mdl od tags seqs fn]
    by (simp add: m t target_tag_def target_file_def)
qed

lemma begins_of_markers: "filter is_begin (markers s) = filter is_begin (events s)"
proof -
  have "(is_marker e \<and> is_begin e) = is_begin e" for e by (cases e) simp_all
  then show ?thesis by (simp add: markers_def)
qed

lemma run_target_begins:
  "filter is_begin (events (run_target env args im ad m t s))
     = filter is_begin (events s) @ [Begin (fst m) (target_file t)]"
proof -
  let ?s' = "run_target env args im ad m t s"
  from run_target_view_t [of s t env args im ad m]
  have "markers ?s' = markers s @ [Begin (fst m) (target_file t)] \<or>
        markers ?s' = markers s @ [Begin (fst m) (target_file t), Generate (target_tag t)] \<or>
        markers ?s' = markers s @ [Begin (fst m) (target_file t), Generate (target_tag t), Store (target_tag t)]"
    by (cases "feature_dicts s (target_tag t)") (auto simp: cache_view_def)
  then have "filter is_begin (markers ?s') = filter is_begin (markers s) @ [Begin (fst m) (target_file t)]"
    by auto
  then show ?thesis by (simp add: begins_of_markers)
qed

lemma run_targets_begins:
  "filter is_begin (events (run_targets env args im ad m ts s))
     = filter is_begin (events s) @ map (\<lambda>t. Begin (fst m) (target_file t)) ts"
  unfolding run_targets_def
  by (induction ts arbitrary: s) (simp_all add: run_target_begins)

lemma run_models_snd:
  "snd (run_models env args im ad gen ts s)
     = fold (\<lambda>m s. run_targets env args im ad m ts (s\<lparr>cur_tracing_interval := 0\<rparr>)) (yielded gen) s"
proof (induction gen arbitrary: s)
  case Nil
  show ?case by (simp add: ret_def)
next
  case (Cons x gen)
  show ?case
  proof (cases x)
    case (Inl e)
    then show ?thesis by (simp add: raise_def)
  next
    case (Inr m)
    with Cons.IH show ?thesis by (simp add: bindE_def)
  qed
qed

lemma run_models_raises:
  "fst (run_models env args im ad gen ts s) = Inl e \<Longrightarrow> Inl e \<in> set gen"
proof (induction gen arbitrary: s)
  case Nil
  then show ?case by (simp add: ret_def)
next
  case (Cons x gen)
  show ?case
  proof (cases x)
    case (Inl e')
    with Cons.prems show ?thesis by (simp add: raise_def)
  next
    case (Inr m)
    with Cons.prems Cons.IH show ?thesis by (simp add: bindE_def)
  qed
qed

lemma run_models_returns:
  "(\<And>e. Inl e \<notin> set gen) \<Longrightarrow> fst (run_models env args im ad gen ts s) = Inr ()"
proof (induction gen arbitrary: s)
  case Nil
  show ?case by (simp add: ret_def)
next
  case (Cons x gen)
  show ?case
  proof (cases x)
    case (Inl e)
    with Cons.prems [of e] show ?thesis by simp
  next
    case (Inr m)
    have "fst (run_models env args im ad gen ts s') = Inr ()" for s'
      using Cons.IH Cons.prems by simp
    with Inr show ?thesis by (simp add: bindE_def)
  qed
qed

lemma yielded_map_Inr [simp]: "yielded (map Inr xs) = xs"
  by (induction xs) simp_all

lemma fold_models_begins:
  "filter is_begin (events (fold (\<lambda>m s. run_targets env args im ad m ts
                                           (s\<lparr>cur_tracing_interval := 0\<rparr>)) models s))
     = filter is_begin (events s)
       @ concat (map (\<lambda>m. map (\<lambda>t. Begin (fst m) (target_file t)) ts) models)"
  by (induction models arbitrary: s) (simp_all add: run_targets_begins)

lemma run_models_begins:
  "filter is_begin (events (snd (run_models env args im ad gen ts s)))
     = filter is_begin (events s)
       @ concat (map (\<lambda>m. map (\<lambda>t. Begin (fst m) (target_file t)) ts) (yielded gen))"
  by (simp add: run_models_snd fold_models_begins)





lemma markers_reset [simp]: "markers (s\<lparr>cur_tracing_interval := c\<rparr>) = markers s"
  by (simp add: markers_def)




lemma settled_Nil [simp]: "settled []"
  by (simp add: settled_def)



lemma cache_inv_reset [simp]: "cache_inv (s\<lparr>cur_tracing_interval := c\<rparr>) = cache_inv s"
  by (simp add: cache_inv_def)







lemma main_unfold:
  "main env args s0 =
     bindE (startup env (effective_args args)) (\<lambda>targets.
     run_models env (effective_args args) (is_multimer_preset (config_preset (effective_args args)))
       (alignment_dir_of (effective_args args)) (load_models env) targets) (initial s0)"
  by (simp add: main_def Let_def)

lemma main_started:
  assumes "startup env (effective_args args) (initial s0) = (Inr targets, s1)"
  shows "main env args s0 =
     run_models env (effective_args args) (is_multimer_preset (config_preset (effective_args args)))
       (alignment_dir_of (effective_args args)) (load_models env) targets s1"
  using assms by (simp add: main_unfold bindE_def)

lemma main_aborted:
  assumes "startup env (effective_args args) (initial s0) = (Inl e, s1)"
  shows "main env args s0 = (Inl e, s1)"
  using assms by (simp add: main_unfold bindE_def)

lemma initial_frame:
  "frame (initial s0) = (files s0, Map.empty, None, 0, filter (\<lambda>e. \<not> is_overlay e) (events s0))"
  by (simp add: frame_def initial_def)

lemma startup_frame:
  assumes "startup env args (initial s0) = (r, s1)"
  shows "files s1 = files s0" "feature_dicts s1 = Map.empty"
    "filter is_begin (events s1) = filter is_begin (events s0)"
    "filter (\<lambda>e. \<not> is_overlay e) (events s1) = filter (\<lambda>e. \<not> is_overlay e) (events s0)"
proof -
  have f: "frame s1 = frame (initial s0)"
    using keepsD [OF keeps_frame_startup assms] .
  then show "files s1 = files s0" "feature_dicts s1 = Map.empty"
    "filter (\<lambda>e. \<not> is_overlay e) (events s1) = filter (\<lambda>e. \<not> is_overlay e) (events s0)"
    by (simp_all add: frame_def initial_def)
  have "events (initial s0) = events s0" by (simp add: initial_def)
  with frame_begins [OF f] show "filter is_begin (events s1) = filter is_begin (events s0)"
    by simp
qed

subsection \<open>Evaluating the concrete runs\<close>

lemma tmp_path_good:
  "tmp_fasta_path (good_env names parsed models) args = os_path_join (output_dir args) ''tmp_4242.fasta''"
  by (simp add: tmp_fasta_path_def good_env_fields str_nat.simps)

lemmas pipeline_defs = target_body_def target_head_def target_tail_def cached_features_def precompute_alignments_def
  align_one_def generate_feature_dict_def msa_stats_stage_def unpack_lengths_def lookup_key_def
  store_features_def final_output_dir_of_def tracing_stage_def write_unrelaxed_def
  unrelaxed_output_path_def assign_rounded_seqlen_def assign_cur_tracing_interval_def
  save_outputs_stage_def slice_recycles_def Let_def


lemma residues_replicate_append:
  "c \<noteq> CHR 0x0A \<Longrightarrow> c \<noteq> CHR ''>'' \<Longrightarrow>
     residues_of False (replicate n c @ rest) = n + residues_of False rest"
  by (induction n) simp_all

lemma residues_replicate:
  "c \<noteq> CHR 0x0A \<Longrightarrow> c \<noteq> CHR ''>'' \<Longrightarrow> residues_of False (replicate n c) = n"
  using residues_replicate_append [of c n "[]"] by simp

lemmas stats_defs = get_msa_stats_def msa_stats_row_def select_batch_def slice_recycle_def
  drop_padding_def have_msa_def bool_and_def bool_xor_def bool_sum_def concat_stats_def

lemmas dimer_simps = pipeline_defs step_defs stats_defs run_target_def dimer_env_def good_env_fields
  tmp_path_good os_path_join_def multimer_preset multi_fasta_def fasta_entry_def newline_def
  residues_replicate_append residues_replicate plain_features_def plain_processed_def
  round_up_seqlen_def TRACING_INTERVAL_def

lemma dimer_miss_a:
  assumes "feature_dicts s ''A1-A2'' = None" "cur_tracing_interval s < 50"
  shows "events (run_target (dimer_env ms) traced_args True ''out/alignments'' (m, ''out'') target_a s)
           = events s @ [Begin m ''a'', Generate ''A1-A2'', Store ''A1-A2'', Tracing m ''A1-A2'' 50,
                         Inference m ''A1-A2''] \<and>
         feature_dicts (run_target (dimer_env ms) traced_args True ''out/alignments'' (m, ''out'') target_a s)
           = (feature_dicts s)(''A1-A2'' \<mapsto> plain_features 50) \<and>
         rounded_seqlen (run_target (dimer_env ms) traced_args True ''out/alignments'' (m, ''out'') target_a s)
           = Some 50 \<and>
         cur_tracing_interval (run_target (dimer_env ms) traced_args True ''out/alignments'' (m, ''out'') target_a s)
           = 50"
  using assms
  by (simp add: dimer_simps traced_args_fields target_a_def)

lemma dimer_miss_b:
  assumes "feature_dicts s ''B1-B2'' = None" "cur_tracing_interval s < 100"
  shows "events (run_target (dimer_env ms) traced_args True ''out/alignments'' (m, ''out'') target_b s)
           = events s @ [Begin m ''b'', Generate ''B1-B2'', Store ''B1-B2'', Tracing m ''B1-B2'' 100,
                         Inference m ''B1-B2''] \<and>
         feature_dicts (run_target (dimer_env ms) traced_args True ''out/alignments'' (m, ''out'') target_b s)
           = (feature_dicts s)(''B1-B2'' \<mapsto> plain_features 100) \<and>
         rounded_seqlen (run_target (dimer_env ms) traced_args True ''out/alignments'' (m, ''out'') target_b s)
           = Some 100 \<and>
         cur_tracing_interval (run_target (dimer_env ms) traced_args True ''out/alignments'' (m, ''out'') target_b s)
           = 100"
  using assms
  by (simp add: dimer_simps traced_args_fields target_b_def)

lemma dimer_hit_a:
  assumes "feature_dicts s ''A1-A2'' = Some (plain_features 50)" "rounded_seqlen s = Some r"
  shows "events (run_target (dimer_env ms) traced_args True ''out/alignments'' (m, ''out'') target_a s)
           = events s @ Begin m ''a'' #
               (if r > cur_tracing_interval s then [Tracing m ''A1-A2'' r] else [])
               @ [Inference m ''A1-A2''] \<and>
         feature_dicts (run_target (dimer_env ms) traced_args True ''out/alignments'' (m, ''out'') target_a s)
           = feature_dicts s \<and>
         rounded_seqlen (run_target (dimer_env ms) traced_args True ''out/alignments'' (m, ''out'') target_a s)
           = Some r \<and>
         cur_tracing_interval (run_target (dimer_env ms) traced_args True ''out/alignments'' (m, ''out'') target_a s)
           = max r (cur_tracing_interval s)"
  using assms
  by (simp add: dimer_simps traced_args_fields target_a_def)

lemma dimer_hit_b:
  assumes "feature_dicts s ''B1-B2'' = Some (plain_features 100)" "rounded_seqlen s = Some r"
  shows "events (run_target (dimer_env ms) traced_args True ''out/alignments'' (m, ''out'') target_b s)
           = events s @ Begin m ''b'' #
               (if r > cur_tracing_interval s then [Tracing m ''B1-B2'' r] else [])
               @ [Inference m ''B1-B2''] \<and>
         feature_dicts (run_target (dimer_env ms) traced_args True ''out/alignments'' (m, ''out'') target_b s)
           = feature_dicts s \<and>
         rounded_seqlen (run_target (dimer_env ms) traced_args True ''out/alignments'' (m, ''out'') target_b s)
           = Some r \<and>
         cur_tracing_interval (run_target (dimer_env ms) traced_args True ''out/alignments'' (m, ''out'') target_b s)
           = max r (cur_tracing_interval s)"
  using assms
  by (simp add: dimer_simps traced_args_fields target_b_def)

lemma two_models_gen: "map Inr two_models = [Inr (1, ''out''), Inr (2, ''out'')]"
  by (simp add: two_models_def)

lemma run_models_unroll:
  assumes "gen = [Inr m1, Inr m2]"
  shows "run_models env args im ad gen [t1, t2] s =
     (Inr (),
      run_target env args im ad m2 t2
       (run_target env args im ad m2 t1
          ((run_target env args im ad m1 t2
              (run_target env args im ad m1 t1 (s\<lparr>cur_tracing_interval := 0\<rparr>)))
             \<lparr>cur_tracing_interval := 0\<rparr>)))"
  by (simp add: assms run_targets_def bindE_def ret_def)


lemma base_config_fixed: "base_config ''data.predict.fixed_size'' = Some (CBool True)"
  by (simp add: base_config_def)

lemma alignment_dir_out:
  "use_precomputed_alignments args = None \<Longrightarrow> output_dir args = ''out'' \<Longrightarrow>
     alignment_dir_of args = ''out/alignments''"
  by (simp add: alignment_dir_of_def os_path_join_def)

lemma dimer_model_config: "model_config (dimer_env ms) = (\<lambda>_ _. Inr base_config)"
  by (simp add: dimer_env_def good_env_fields)

lemma dimer_startup:
  "fst (startup (dimer_env ms) traced_args (initial empty_state)) = Inr [target_a, target_b]"
  "events (snd (startup (dimer_env ms) traced_args (initial empty_state))) = []"
  "feature_dicts (snd (startup (dimer_env ms) traced_args (initial empty_state))) = Map.empty"
  by (simp_all add: startup_def startup_config_def overlay_block_def check_tracing_def step_defs
      traced_args_fields dimer_sorted dimer_model_config base_config_fixed initial_def
      empty_state_def)

lemma dimer_traced_started:
  "main (dimer_env two_models) traced_args empty_state =
     run_models (dimer_env two_models) traced_args True ''out/alignments'' (map Inr two_models)
       [target_a, target_b] (snd (startup (dimer_env two_models) traced_args (initial empty_state)))"
proof -
  have ea: "effective_args traced_args = traced_args"
    by (simp add: effective_args_def traced_args_fields prefix_code)
  have st: "startup (dimer_env two_models) (effective_args traced_args) (initial empty_state)
      = (Inr [target_a, target_b], snd (startup (dimer_env two_models) traced_args (initial empty_state)))"
    by (simp add: ea prod_eq_iff dimer_startup)
  have lm: "load_models (dimer_env two_models) = map Inr two_models"
    by (simp add: dimer_env_def good_env_fields)
  show ?thesis
    using main_started [OF st] multimer_preset
    by (simp add: ea lm traced_args_fields alignment_dir_out)
qed

lemma dimer_traced_events:
  "events (snd (main (dimer_env two_models) traced_args empty_state)) =
     [Begin 1 ''a'', Generate ''A1-A2'', Store ''A1-A2'', Tracing 1 ''A1-A2'' 50, Inference 1 ''A1-A2'',
      Begin 1 ''b'', Generate ''B1-B2'', Store ''B1-B2'', Tracing 1 ''B1-B2'' 100, Inference 1 ''B1-B2'',
      Begin 2 ''a'', Tracing 2 ''A1-A2'' 100, Inference 2 ''A1-A2'',
      Begin 2 ''b'', Inference 2 ''B1-B2'']"
proof -
  let ?run = "\<lambda>m t s. run_target (dimer_env two_models) traced_args True ''out/alignments'' (m, ''out'') t s"
  define s0 where "s0 = snd (startup (dimer_env two_models) traced_args (initial empty_state))"
  define s1 where "s1 = ?run 1 target_a (s0\<lparr>cur_tracing_interval := 0\<rparr>)"
  define s2 where "s2 = ?run 1 target_b s1"
  define s3 where "s3 = ?run 2 target_a (s2\<lparr>cur_tracing_interval := 0\<rparr>)"
  define s4 where "s4 = ?run 2 target_b s3"
  have m: "snd (main (dimer_env two_models) traced_args empty_state) = s4"
    unfolding dimer_traced_started run_models_unroll [OF two_models_gen] snd_conv
      s0_def s1_def s2_def s3_def s4_def ..
  have e0: "events s0 = []" "feature_dicts s0 = Map.empty"
    by (simp_all add: s0_def dimer_startup)
  have f1: "events s1 = [Begin 1 ''a'', Generate ''A1-A2'', Store ''A1-A2'', Tracing 1 ''A1-A2'' 50,
                         Inference 1 ''A1-A2'']"
      "feature_dicts s1 = [''A1-A2'' \<mapsto> plain_features 50]" "cur_tracing_interval s1 = 50"
    using dimer_miss_a [of "s0\<lparr>cur_tracing_interval := 0\<rparr>" two_models 1] e0
    by (simp_all add: s1_def)
  have f2: "events s2 = events s1 @ [Begin 1 ''b'', Generate ''B1-B2'', Store ''B1-B2'',
                         Tracing 1 ''B1-B2'' 100, Inference 1 ''B1-B2'']"
      "feature_dicts s2 = [''A1-A2'' \<mapsto> plain_features 50, ''B1-B2'' \<mapsto> plain_features 100]"
      "rounded_seqlen s2 = Some 100"
    using dimer_miss_b [of s1 two_models 1] f1
    by (simp_all add: s2_def)
  have f3: "events s3 = events s2 @ [Begin 2 ''a'', Tracing 2 ''A1-A2'' 100, Inference 2 ''A1-A2'']"
      "feature_dicts s3 = feature_dicts s2" "rounded_seqlen s3 = Some 100"
      "cur_tracing_interval s3 = 100"
    using dimer_hit_a [of "s2\<lparr>cur_tracing_interval := 0\<rparr>" 100 two_models 2] f2
    by (simp_all add: s3_def)
  have f4: "events s4 = events s3 @ [Begin 2 ''b'', Inference 2 ''B1-B2'']"
    using dimer_hit_b [of s3 100 two_models 2] f3 f2
    by (simp_all add: s4_def)
  show ?thesis
    by (simp add: m f4 f3 f2 f1)
qed

text \<open>The runs over the single-chain target.\<close>

lemma single_sorted:
  assumes "listdir env = (\<lambda>_ _. Inr [''t1.fasta''])"
    and "read_fasta env = (\<lambda>_ _. Inr ([''T1''], [replicate 50 (CHR ''A'')]))"
    and "fasta_dir args = ''in''" and "config_preset args = ''model_1''"
  shows "sorted_targets env args s = (Inr [target_t1], s\<lparr>clock := clock s + 2\<rparr>)"
  using monomer_preset
  by (simp add: sorted_targets_def list_files_with_extensions_def assms step_defs
      suffix_to_prefix prefix_code target_t1_def)

lemma single_startup:
  assumes "listdir env = (\<lambda>_ _. Inr [''t1.fasta''])"
    and "read_fasta env = (\<lambda>_ _. Inr ([''T1''], [replicate 50 (CHR ''A'')]))"
    and "model_config env = (\<lambda>_ _. Inr base_config)"
    and "fasta_dir args = ''in''" and "config_preset args = ''model_1''"
    and "experiment_config_json args = []"
  shows "fst (startup env args (initial empty_state)) = Inr [target_t1]"
    and "events (snd (startup env args (initial empty_state))) = []"
    and "feature_dicts (snd (startup env args (initial empty_state))) = Map.empty"
    and "files (snd (startup env args (initial empty_state))) = Map.empty"
  by (simp_all add: startup_def startup_config_def overlay_block_def check_tracing_def step_defs
      assms single_sorted [OF assms(1,2,4,5)] base_config_fixed initial_def empty_state_def)

lemma single_started:
  assumes "listdir env = (\<lambda>_ _. Inr [''t1.fasta''])"
    and "read_fasta env = (\<lambda>_ _. Inr ([''T1''], [replicate 50 (CHR ''A'')]))"
    and "model_config env = (\<lambda>_ _. Inr base_config)"
    and "fasta_dir args = ''in''" and "config_preset args = ''model_1''"
    and "experiment_config_json args = []"
    and "use_precomputed_alignments args = None" and "output_dir args = ''out''"
  shows "main env args empty_state =
     run_models env args False ''out/alignments'' (load_models env) [target_t1]
       (snd (startup env args (initial empty_state)))"
proof -
  have ea: "effective_args args = args"
    by (simp add: effective_args_def assms prefix_code)
  have st: "startup env (effective_args args) (initial empty_state)
      = (Inr [target_t1], snd (startup env args (initial empty_state)))"
    by (simp add: ea prod_eq_iff single_startup [OF assms(1-6)])
  show ?thesis
    using main_started [OF st] monomer_preset
    by (simp add: ea assms alignment_dir_out)
qed


lemma monomer_env_fields:
  "listdir monomer_env = (\<lambda>_ _. Inr [''t1.fasta''])"
  "read_fasta monomer_env = (\<lambda>_ _. Inr ([''T1''], [replicate 50 (CHR ''A'')]))"
  "model_config monomer_env = (\<lambda>_ _. Inr base_config)"
  "load_models monomer_env = [Inr (1, ''out'')]"
  "getpid monomer_env = 4242"
  "alignment_run monomer_env = (\<lambda>_ _ _ _. None)"
  "process_fasta monomer_env = (\<lambda>_ _ text _. Inr (plain_features (residues_of False text)))"
  "process_features monomer_env = (\<lambda>_ fd _. Inr (plain_processed fd))"
  by (simp_all add: monomer_env_def good_env_fields)

lemma broken_generator_env_fields:
  "listdir broken_generator_env = (\<lambda>_ _. Inr [''t1.fasta''])"
  "read_fasta broken_generator_env = (\<lambda>_ _. Inr ([''T1''], [replicate 50 (CHR ''A'')]))"
  "model_config broken_generator_env = (\<lambda>_ _. Inr base_config)"
  "load_models broken_generator_env = [Inr (1, ''out''), Inl (CollaboratorError ''checkpoint'')]"
  "getpid broken_generator_env = 4242"
  "alignment_run broken_generator_env = (\<lambda>_ _ _ _. None)"
  "process_fasta broken_generator_env = (\<lambda>_ _ text _. Inr (plain_features (residues_of False text)))"
  "process_features broken_generator_env = (\<lambda>_ fd _. Inr (plain_processed fd))"
  by (simp_all add: broken_generator_env_def monomer_env_def good_env_fields)

lemma failing_env_fields:
  "listdir failing_assembly_env = (\<lambda>_ _. Inr [''t1.fasta''])"
  "read_fasta failing_assembly_env = (\<lambda>_ _. Inr ([''T1''], [replicate 50 (CHR ''A'')]))"
  "model_config failing_assembly_env = (\<lambda>_ _. Inr base_config)"
  "load_models failing_assembly_env = map Inr two_models"
  "getpid failing_assembly_env = 4242"
  "alignment_run failing_assembly_env = (\<lambda>_ _ _ _. None)"
  "process_fasta failing_assembly_env = (\<lambda>_ _ _ _. Inl (CollaboratorError ''process_fasta''))"
  by (simp_all add: failing_assembly_env_def good_env_fields)


lemma tmp_path_4242_any:
  "getpid env = 4242 \<Longrightarrow> tmp_fasta_path env args = os_path_join (output_dir args) ''tmp_4242.fasta''"
  by (simp add: tmp_fasta_path_def str_nat.simps)

lemmas single_simps = pipeline_defs step_defs os_path_join_def monomer_preset tmp_path_4242_any
  fasta_entry_def newline_def plain_features_def plain_processed_def target_t1_def run_target_def
  residues_replicate_append residues_replicate round_up_seqlen_def TRACING_INTERVAL_def

lemma monomer_iteration:
  assumes "getpid env = 4242"
    and "alignment_run env = (\<lambda>_ _ _ _. None)"
    and "process_fasta env = (\<lambda>_ _ text _. Inr (plain_features (residues_of False text)))"
    and "process_features env = (\<lambda>_ fd _. Inr (plain_processed fd))"
    and "feature_dicts s ''T1'' = None"
  shows "events (run_target env base_args False ''out/alignments'' (m, ''out'') target_t1 s)
           = events s @ [Begin m ''t1'', Generate ''T1'', Store ''T1'',
                         ErrorLogged ''t1'' (ValueError ''not enough values to unpack'')] \<and>
         feature_dicts (run_target env base_args False ''out/alignments'' (m, ''out'') target_t1 s)
           = (feature_dicts s)(''T1'' \<mapsto> plain_features 50) \<and>
         files (run_target env base_args False ''out/alignments'' (m, ''out'') target_t1 s)
           = (files s)(''out/tmp_4242.fasta'' := None)"
  using assms
  by (simp add: single_simps base_args_fields)

lemma monomer_main:
  "fst (main monomer_env base_args empty_state) = Inr () \<and>
   events (snd (main monomer_env base_args empty_state)) =
     [Begin 1 ''t1'', Generate ''T1'', Store ''T1'',
      ErrorLogged ''t1'' (ValueError ''not enough values to unpack'')] \<and>
   files (snd (main monomer_env base_args empty_state)) = Map.empty \<and>
   feature_dicts (snd (main monomer_env base_args empty_state)) = [''T1'' \<mapsto> plain_features 50]"
proof -
  define s0 where "s0 = snd (startup monomer_env base_args (initial empty_state))"
  define s1 where "s1 = run_target monomer_env base_args False ''out/alignments'' (1, ''out'')
            target_t1 (s0\<lparr>cur_tracing_interval := 0\<rparr>)"
  have m: "main monomer_env base_args empty_state = (Inr (), s1)"
    unfolding single_started [OF monomer_env_fields(1-3) base_args_fields(1,3,10,4,2)]
      monomer_env_fields(4)
    by (simp add: run_targets_def bindE_def ret_def s0_def s1_def)
  have e0: "events s0 = []" "feature_dicts s0 = Map.empty" "files s0 = Map.empty"
    by (simp_all add: s0_def single_startup [OF monomer_env_fields(1-3) base_args_fields(1,3,10)])
  show ?thesis
    using monomer_iteration [OF monomer_env_fields(5-8), of "s0\<lparr>cur_tracing_interval := 0\<rparr>" 1] e0
    by (simp add: m s1_def)
qed

lemma broken_generator_main:
  "fst (main broken_generator_env base_args empty_state) = Inl (CollaboratorError ''checkpoint'') \<and>
   events (snd (main broken_generator_env base_args empty_state)) =
     [Begin 1 ''t1'', Generate ''T1'', Store ''T1'',
      ErrorLogged ''t1'' (ValueError ''not enough values to unpack'')]"
proof -
  define s0 where "s0 = snd (startup broken_generator_env base_args (initial empty_state))"
  define s1 where "s1 = run_target broken_generator_env base_args False ''out/alignments'' (1, ''out'')
            target_t1 (s0\<lparr>cur_tracing_interval := 0\<rparr>)"
  have m: "main broken_generator_env base_args empty_state = (Inl (CollaboratorError ''checkpoint''), s1)"
    unfolding single_started [OF broken_generator_env_fields(1-3) base_args_fields(1,3,10,4,2)]
      broken_generator_env_fields(4)
    by (simp add: run_targets_def bindE_def raise_def s0_def s1_def)
  have e0: "events s0 = []" "feature_dicts s0 = Map.empty"
    by (simp_all add: s0_def single_startup [OF broken_generator_env_fields(1-3) base_args_fields(1,3,10)])
  show ?thesis
    using monomer_iteration [OF broken_generator_env_fields(5-8), of "s0\<lparr>cur_tracing_interval := 0\<rparr>" 1] e0
    by (simp add: m s1_def)
qed

lemma unlistable_main:
  "main unlistable_env base_args empty_state =
     (Inl (OSError ''in''), (initial empty_state)\<lparr>dirs := {''out''}, clock := 2\<rparr>)"
  by (simp add: main_unfold effective_args_def base_args_fields prefix_code startup_def
      startup_config_def overlay_block_def check_tracing_def sorted_targets_def
      list_files_with_extensions_def step_defs unlistable_env_def monomer_env_def good_env_fields
      initial_def empty_state_def)





lemma overlay_env_fields:
  "model_config overlay_env = (\<lambda>_ _. Inr base_config)"
  "load_json overlay_env = (\<lambda>_ p. if p = ''cfg.json'' then Inr overlay_doc else Inl (OSError p))"
  by (simp_all add: overlay_env_def monomer_env_def good_env_fields)

lemma overlay_args_fields:
  "experiment_config_json overlay_args = ''cfg.json''" "config_preset overlay_args = ''model_1''"
  "output_dir overlay_args = ''out''" "trace_model overlay_args = False"
  "experiment_config_json tracing_args = ''cfg.json''" "config_preset tracing_args = ''model_1''"
  "output_dir tracing_args = ''out''" "trace_model tracing_args = True"
  "effective_args overlay_args = overlay_args" "effective_args tracing_args = tracing_args"
  by (simp_all add: overlay_args_def tracing_args_def base_args_fields effective_args_def prefix_code)

lemma overlay_doc_applied:
  "update_from_flattened_dict base_config overlay_doc = Inr overlaid_config"
  "distinct (map fst overlay_doc)"
  "overlaid_config ''data.predict.fixed_size'' = Some (CBool False)"
  by (simp_all add: base_config_def overlay_doc_def overlaid_config_def set_leaf_def fun_eq_iff)

lemma unlistable_env_fields:
  "load_models unlistable_env = [Inr (1, ''out'')]"
  by (simp add: unlistable_env_def monomer_env_def good_env_fields)

lemma overlay_doc_again:
  "update_from_flattened_dict overlaid_config overlay_doc = Inr overlaid_config"
  using overlay_doc_applied(1,2) by (rule update_twice)

subsection \<open>The unpacking of the chain lengths\<close>

text \<open>
  Whatever the collaborators do, a target whose chain count is not two never gets past
  line 351: the statements after the cache step raise, having written no file and logged
  no event.
\<close>

lemma unpack_raises:
  "length seqs \<noteq> 2 \<Longrightarrow> \<exists>e. unpack_lengths seqs s = (Inl e, s)"
  by (cases seqs rule: list.exhaust; simp add: unpack_lengths_def raise_def)
     (auto simp: raise_def split: list.splits)

lemma msa_stats_stage_raises:
  assumes "length seqs \<noteq> 2"
  shows "\<exists>e. msa_stats_stage fd processed seqs s = (Inl e, s)"
proof -
  from unpack_raises [OF assms] obtain e where "unpack_lengths seqs s = (Inl e, s)" by blast
  then show ?thesis
    by (auto simp: msa_stats_stage_def bindE_def lookup_key_def raise_def ret_def
        split: option.splits)
qed

lemma tail_raises_unless_two_chains:
  assumes "length seqs \<noteq> 2"
  shows "(\<exists>e. fst (target_tail env args im mdl od tag seqs fn fod fd s) = Inl e) \<and>
         files (snd (target_tail env args im mdl od tag seqs fn fod fd s)) = files s \<and>
         events (snd (target_tail env args im mdl od tag seqs fn fod fd s)) = events s"
proof (cases "process_features env (clock s) fd im")
  case (Inl e)
  then show ?thesis by (simp add: target_tail_def bindE_def call_def)
next
  case (Inr processed)
  from msa_stats_stage_raises [OF assms, of fd processed "s\<lparr>clock := Suc (clock s)\<rparr>"]
  obtain e where "msa_stats_stage fd processed seqs (s\<lparr>clock := Suc (clock s)\<rparr>)
      = (Inl e, s\<lparr>clock := Suc (clock s)\<rparr>)" by blast
  with Inr show ?thesis by (simp add: target_tail_def bindE_def call_def)
qed



section \<open>The claims about the driver\<close>

text \<open>
  C5. An exception of the body of the \<open>try\<close> block is caught by the handler, which logs
  it and ends the iteration with the state the body left. Whatever fails in a pipeline, the
  loops enter the pipeline of every target for every model the generator yields, in order;
  and once startup has returned, only the model generator can make \<open>main\<close> raise.
\<close>

theorem target_failures_are_isolated:
  "(target_body env args im ad m t s = (Inl e, s') \<longrightarrow>
      run_target env args im ad m t s
        = s'\<lparr>events := events s' @ [ErrorLogged (target_file t) e]\<rparr>) \<and>
   filter is_begin (events (snd (run_models env args im ad gen targets s)))
     = filter is_begin (events s)
       @ concat (map (\<lambda>m. map (\<lambda>t. Begin (fst m) (target_file t)) targets) (yielded gen)) \<and>
   (fst (startup env (effective_args args) (initial s0)) = Inr found \<longrightarrow>
      filter is_begin (events (snd (main env args s0)))
        = filter is_begin (events s0)
          @ concat (map (\<lambda>m. map (\<lambda>t. Begin (fst m) (target_file t)) found)
                      (yielded (load_models env))) \<and>
      ((\<forall>x. Inl x \<notin> set (load_models env)) \<longrightarrow> fst (main env args s0) = Inr ()))"
proof -
  have c: "filter is_begin (events (snd (main env args s0)))
        = filter is_begin (events s0)
          @ concat (map (\<lambda>m. map (\<lambda>t. Begin (fst m) (target_file t)) found)
                      (yielded (load_models env))) \<and>
      ((\<forall>x. Inl x \<notin> set (load_models env)) \<longrightarrow> fst (main env args s0) = Inr ())"
    if h: "fst (startup env (effective_args args) (initial s0)) = Inr found"
  proof -
    obtain s1 where st: "startup env (effective_args args) (initial s0) = (Inr found, s1)"
      using h by (cases "startup env (effective_args args) (initial s0)") simp
    from startup_frame(3) [OF st] show ?thesis
      by (simp add: main_started [OF st] run_models_begins run_models_returns)
  qed
  show ?thesis
    using c by (auto simp: run_target_def target_file_def run_models_begins)
qed

theorem target_failures_are_isolated_witness:
  "fst (target_body failing_assembly_env base_args False ''out/alignments'' (1, ''out'') target_t1
          empty_state) = Inl (CollaboratorError ''process_fasta'') \<and>
   run_target failing_assembly_env base_args False ''out/alignments'' (1, ''out'') target_t1 empty_state
     = (snd (target_body failing_assembly_env base_args False ''out/alignments'' (1, ''out'') target_t1
               empty_state))
       \<lparr>events :=
          events (snd (target_body failing_assembly_env base_args False ''out/alignments'' (1, ''out'')
                         target_t1 empty_state))
          @ [ErrorLogged ''t1'' (CollaboratorError ''process_fasta'')]\<rparr> \<and>
   fst (startup failing_assembly_env base_args (initial empty_state)) = Inr [target_t1] \<and>
   fst (main failing_assembly_env base_args empty_state) = Inr () \<and>
   filter is_begin (events (snd (main failing_assembly_env base_args empty_state)))
     = [Begin 1 ''t1'', Begin 2 ''t1'']"
proof -
  let ?body = "target_body failing_assembly_env base_args False ''out/alignments'' (1, ''out'')
                 target_t1 empty_state"
  have b: "fst ?body = Inl (CollaboratorError ''process_fasta'')"
    by (simp add: single_simps base_args_fields failing_env_fields empty_state_def)
  then have b': "?body = (Inl (CollaboratorError ''process_fasta''), snd ?body)"
    by (simp add: prod_eq_iff)
  have ea: "effective_args base_args = base_args"
    by (simp add: effective_args_def base_args_fields prefix_code)
  have st: "fst (startup failing_assembly_env base_args (initial empty_state)) = Inr [target_t1]"
    by (rule single_startup [OF failing_env_fields(1-3) base_args_fields(1,3,10)])
  have tf: "target_file target_t1 = ''t1''"
    by (simp add: target_file_def target_t1_def)
  note T = target_failures_are_isolated
    [where env = failing_assembly_env and args = base_args and im = False
       and ad = "''out/alignments''" and m = "(1, ''out'')" and t = target_t1 and s = empty_state
       and e = "CollaboratorError ''process_fasta''" and s' = "snd ?body"
       and found = "[target_t1]" and ?s0.0 = empty_state]
  from T b' have h: "run_target failing_assembly_env base_args False ''out/alignments'' (1, ''out'')
      target_t1 empty_state
     = (snd ?body)\<lparr>events := events (snd ?body) @ [ErrorLogged ''t1'' (CollaboratorError ''process_fasta'')]\<rparr>"
    by (simp add: tf)
  from T st have m: "fst (main failing_assembly_env base_args empty_state) = Inr () \<and>
      filter is_begin (events (snd (main failing_assembly_env base_args empty_state)))
        = [Begin 1 ''t1'', Begin 2 ''t1'']"
    by (simp add: ea tf failing_env_fields two_models_def empty_state_def)
  from b h st m show ?thesis by simp
qed








text \<open>
  C8, as the script has it. If tracing is requested and the configuration that leaves the
  overlay has fixed-size mode disabled, \<open>main\<close> raises the \<open>ValueError\<close> of line 224 before
  any pipeline is entered and without writing a file. It is not the only error that aborts
  the run: every exception that leaves \<open>main\<close> was raised by a statement of the startup, and
  then no pipeline was entered and no file written, or by the model generator.
\<close>

theorem aborts_are_raised_outside_the_try:
  "(trace_model args \<and>
    fst (startup_config env (effective_args args)
           (snd (makedirs (output_dir args) (initial s0)))) = Inr config \<and>
    config ''data.predict.fixed_size'' = Some v \<and> \<not> truthy v \<longrightarrow>
      fst (main env args s0)
        = Inl (ValueError ''Tracing requires that fixed_size mode be enabled in the config'') \<and>
      filter is_begin (events (snd (main env args s0))) = filter is_begin (events s0) \<and>
      files (snd (main env args s0)) = files s0) \<and>
   (fst (main env args s0) = Inl e \<longrightarrow>
      (fst (startup env (effective_args args) (initial s0)) = Inl e \<and>
       filter is_begin (events (snd (main env args s0))) = filter is_begin (events s0) \<and>
       files (snd (main env args s0)) = files s0)
      \<or> Inl e \<in> set (load_models env))"
proof -
  let ?a = "effective_args args"
  let ?s1 = "(initial s0)\<lparr>dirs := insert (output_dir args) (dirs (initial s0))\<rparr>"
  let ?err = "ValueError ''Tracing requires that fixed_size mode be enabled in the config''"
  have aborted: "fst (main env args s0) = Inl x \<and>
      filter is_begin (events (snd (main env args s0))) = filter is_begin (events s0) \<and>
      files (snd (main env args s0)) = files s0"
    if st: "startup env ?a (initial s0) = (Inl x, s')" for x s'
    using startup_frame(1,3) [OF st] main_aborted [OF st] by simp
  have A: "fst (main env args s0) = Inl ?err \<and>
      filter is_begin (events (snd (main env args s0))) = filter is_begin (events s0) \<and>
      files (snd (main env args s0)) = files s0"
    if tr: "trace_model args"
      and sc: "fst (startup_config env ?a (snd (makedirs (output_dir args) (initial s0))))
                 = Inr config"
      and off: "config ''data.predict.fixed_size'' = Some v" "\<not> truthy v"
  proof -
    obtain s2 where sc': "startup_config env ?a ?s1 = (Inr config, s2)"
      using sc by (cases "startup_config env ?a ?s1") (simp add: makedirs_def)
    have ea: "output_dir ?a = output_dir args" "trace_model ?a = trace_model args"
      by (simp_all add: effective_args_def)
    have md: "makedirs (output_dir args) (initial s0) = (Inr (), ?s1)"
      by (simp add: makedirs_def)
    have "check_tracing ?a config = Inl ?err"
      using tr off by (simp add: check_tracing_def ea)
    then have "startup env ?a (initial s0) = (Inl ?err, s2)"
      using sc' md unfolding startup_def by (simp add: bindE_def of_sum_def ea)
    then show ?thesis by (rule aborted)
  qed
  have B: "(fst (startup env ?a (initial s0)) = Inl e \<and>
       filter is_begin (events (snd (main env args s0))) = filter is_begin (events s0) \<and>
       files (snd (main env args s0)) = files s0)
      \<or> Inl e \<in> set (load_models env)"
    if raised: "fst (main env args s0) = Inl e"
  proof -
    obtain r s' where st: "startup env ?a (initial s0) = (r, s')" by fastforce
    show ?thesis
    proof (cases r)
      case (Inl x)
      with st have st': "startup env ?a (initial s0) = (Inl x, s')" by simp
      from aborted [OF st'] raised have "x = e" by simp
      with aborted [OF st'] st' show ?thesis by simp
    next
      case (Inr found)
      with st raised have "Inl e \<in> set (load_models env)"
        by (simp add: main_started run_models_raises)
      then show ?thesis ..
    qed
  qed
  from A B show ?thesis by blast
qed

theorem aborts_are_raised_outside_the_try_witness:
  "trace_model tracing_args \<and>
   fst (startup_config overlay_env (effective_args tracing_args)
          (snd (makedirs (output_dir tracing_args) (initial empty_state)))) = Inr overlaid_config \<and>
   overlaid_config ''data.predict.fixed_size'' = Some (CBool False) \<and>
   fst (main overlay_env tracing_args empty_state)
     = Inl (ValueError ''Tracing requires that fixed_size mode be enabled in the config'') \<and>
   filter is_begin (events (snd (main overlay_env tracing_args empty_state))) = [] \<and>
   files (snd (main overlay_env tracing_args empty_state)) = Map.empty \<and>
   fst (main unlistable_env base_args empty_state) = Inl (OSError ''in'') \<and>
   fst (startup unlistable_env (effective_args base_args) (initial empty_state)) = Inl (OSError ''in'')"
proof -
  have sc: "fst (startup_config overlay_env (effective_args tracing_args)
          (snd (makedirs (output_dir tracing_args) (initial empty_state)))) = Inr overlaid_config"
    by (simp add: startup_config_def overlay_block_def step_defs overlay_args_fields
        overlay_env_fields overlay_doc_applied overlay_doc_again initial_def empty_state_def)
  have tr: "trace_model tracing_args" by (simp add: overlay_args_fields)
  have e: "events empty_state = []" "files empty_state = Map.empty"
    by (simp_all add: empty_state_def)
  have u: "fst (main unlistable_env base_args empty_state) = Inl (OSError ''in'')"
    by (simp add: unlistable_main)
  note T = aborts_are_raised_outside_the_try
    [where args = tracing_args and env = overlay_env and ?s0.0 = empty_state
       and config = overlaid_config and v = "CBool False"]
  note U = aborts_are_raised_outside_the_try
    [where args = base_args and env = unlistable_env and ?s0.0 = empty_state
       and e = "OSError ''in''"]
  from T sc tr overlay_doc_applied(3) e
  have a: "fst (main overlay_env tracing_args empty_state)
     = Inl (ValueError ''Tracing requires that fixed_size mode be enabled in the config'') \<and>
   filter is_begin (events (snd (main overlay_env tracing_args empty_state))) = [] \<and>
   files (snd (main overlay_env tracing_args empty_state)) = Map.empty"
    by simp
  from U u have b: "fst (startup unlistable_env (effective_args base_args) (initial empty_state))
      = Inl (OSError ''in'')"
    by (simp add: unlistable_env_fields)
  from sc tr overlay_doc_applied(3) a u b show ?thesis by simp
qed

text \<open>
  The claim C8 as stated fails: without any tracing requested, a FASTA directory that cannot
  be listed makes \<open>main\<close> raise at line 275, and a model generator that fails at its second
  model makes \<open>main\<close> raise after the target was processed for the first one.
\<close>

theorem other_errors_abort_the_run:
  "trace_model base_args = False \<and>
   fst (main unlistable_env base_args empty_state) = Inl (OSError ''in'') \<and>
   load_models broken_generator_env = [Inr (1, ''out''), Inl (CollaboratorError ''checkpoint'')] \<and>
   fst (main broken_generator_env base_args empty_state) = Inl (CollaboratorError ''checkpoint'') \<and>
   events (snd (main broken_generator_env base_args empty_state)) =
     [Begin 1 ''t1'', Generate ''T1'', Store ''T1'',
      ErrorLogged ''t1'' (ValueError ''not enough values to unpack'')]"
  by (simp add: unlistable_main broken_generator_main broken_generator_env_fields base_args_fields)

text \<open>
  C1 on the script: a run over one file with a single chain of fifty residues, one model,
  relaxation skipped and diagnostics off. \<open>main\<close> returns normally, but line 351 unpacks
  the chain lengths into two names and raises on one chain; the handler logs it, and no file
  exists at the expected path \<open>out/model_1/t1/unrelaxed.pdb\<close> or anywhere else.
\<close>

theorem single_chain_run_writes_no_structure:
  "fst (main monomer_env base_args empty_state) = Inr () \<and>
   events (snd (main monomer_env base_args empty_state)) =
     [Begin 1 ''t1'', Generate ''T1'', Store ''T1'',
      ErrorLogged ''t1'' (ValueError ''not enough values to unpack'')] \<and>
   unrelaxed_output_path base_args (final_output_dir_of base_args ''out'' ''t1'')
     = ''out/model_1/t1/unrelaxed.pdb'' \<and>
   files (snd (main monomer_env base_args empty_state)) ''out/model_1/t1/unrelaxed.pdb'' = None \<and>
   files (snd (main monomer_env base_args empty_state)) = Map.empty"
  using monomer_main
  by (simp add: unrelaxed_output_path_def final_output_dir_of_def os_path_join_def base_args_fields)

text \<open>
  C2 on the script: tracing requested, two models, targets of buckets 50 and 100. The first
  model traces at each bucket. In the second model's run both targets are cache hits, so
  \<open>rounded_seqlen\<close> still holds the 100 of the first model's last miss: the model is traced
  once, at the target of bucket 50, logged and recorded as 100, and the target of bucket 100
  is inferred without a tracing of its own.
\<close>

theorem second_model_traces_once_at_stale_bucket:
  "filter is_tracing (events (snd (main (dimer_env two_models) traced_args empty_state))) =
     [Tracing 1 ''A1-A2'' 50, Inference 1 ''A1-A2'', Tracing 1 ''B1-B2'' 100, Inference 1 ''B1-B2'',
      Tracing 2 ''A1-A2'' 100, Inference 2 ''A1-A2'', Inference 2 ''B1-B2'']"
  by (simp add: dimer_traced_events)

end
